theory Spec2Isabelle
  imports Complex_Main
begin

section \<open>Shared vocabulary: exceptions, data frames, CSV files\<close>

text \<open>
  The three scripts (\<^verbatim>\<open>dune_to_sheets.py\<close>, \<^verbatim>\<open>defi_llama_validation.py\<close>,
  \<^verbatim>\<open>validation.py\<close>) talk to two remote services and to the file system. The remote
  services are inputs of the model (a record of reply functions), the file system is an
  explicit map from path to file content, and every \<^verbatim>\<open>raise\<close> is a value.
\<close>

text \<open>
  A Python exception, with the text \<^verbatim>\<open>str(e)\<close> gives. \<open>HTTPError\<close> stands for whatever the
  HTTP client raises (transport failure, \<^verbatim>\<open>raise_for_status\<close>, undecodable body);
  \<open>Exception\<close> is the plain \<^verbatim>\<open>Exception(msg)\<close> the scripts raise themselves;
  \<open>FileNotFoundError\<close> carries the file name and \<open>JSONDecodeError\<close> the decoder's message. A remote
  reply is \<open>Inl m\<close> when the HTTP client raised with message \<open>m\<close>, and \<open>Inr\<close> of the decoded
  body otherwise.
\<close>

datatype exn =
    HTTPError string
  | Exception string
  | FileNotFoundError string
  | JSONDecodeError string

fun str_exn :: "exn \<Rightarrow> string" where
  "str_exn (HTTPError m) = m"
| "str_exn (Exception m) = m"
| "str_exn (FileNotFoundError f) =
     ''[Errno 2] No such file or directory: '' @ [CHR 0x27] @ f @ [CHR 0x27]"
| "str_exn (JSONDecodeError m) = m"

text \<open>A JSON object with string keys, in insertion order.\<close>

type_synonym 'v dict = "(string \<times> 'v) list"

text \<open>
  A pandas DataFrame without its index: the column labels and the rows, each row holding
  one cell per column; \<open>None\<close> is a missing cell (NaN).
\<close>

record 'v dataframe =
  columns :: "string list"
  rows :: "'v option list list"

text \<open>\<^verbatim>\<open>pd.DataFrame()\<close>\<close>

definition DataFrame_empty :: "'v dataframe" where
  "DataFrame_empty = \<lparr>columns = [], rows = []\<rparr>"

text \<open>
  \<^verbatim>\<open>pd.DataFrame(records)\<close> for a list of dicts: the columns are the keys in order of first
  appearance, and a key a record lacks gives a missing cell.
\<close>

definition first_seen :: "string list \<Rightarrow> string list" where
  "first_seen ks = rev (remdups (rev ks))"

definition DataFrame :: "'v dict list \<Rightarrow> 'v dataframe" where
  "DataFrame records =
     (let cols = first_seen (concat (map (map fst) records))
      in \<lparr>columns = cols, rows = map (\<lambda>r. map (map_of r) cols) records\<rparr>)"

text \<open>\<^verbatim>\<open>df.empty\<close>: some axis has length 0.\<close>

definition empty_df :: "'v dataframe \<Rightarrow> bool" where
  "empty_df df \<longleftrightarrow> columns df = [] \<or> rows df = []"

text \<open>
  The lines \<^verbatim>\<open>to_csv(index=False)\<close> writes: one header line when \<^verbatim>\<open>header\<close> is true, then
  one line per row.
\<close>

datatype 'v csv_line = Header "string list" | Row "'v option list"

definition to_csv :: "bool \<Rightarrow> 'v dataframe \<Rightarrow> 'v csv_line list" where
  "to_csv header df = (if header then [Header (columns df)] else []) @ map Row (rows df)"

fun is_header :: "'v csv_line \<Rightarrow> bool" where
  "is_header (Header _) = True"
| "is_header (Row _) = False"

text \<open>The file system: the lines of every file that exists, by path.\<close>

type_synonym 'v fs = "string \<rightharpoonup> 'v csv_line list"

text \<open>\<^verbatim>\<open>os.path.join\<close> of two components (POSIX).\<close>

definition path_join :: "string \<Rightarrow> string \<Rightarrow> string" where
  "path_join a b =
     (if b \<noteq> [] \<and> hd b = CHR ''/'' then b
      else if a = [] \<or> last a = CHR ''/'' then a @ b
      else a @ ''/'' @ b)"

text \<open>\<^verbatim>\<open>str\<close> of a Python \<^verbatim>\<open>int\<close>, as f-strings render it.\<close>

definition digit_char :: "nat \<Rightarrow> char" where
  "digit_char d =
     (if d = 0 then CHR ''0'' else if d = 1 then CHR ''1'' else if d = 2 then CHR ''2''
      else if d = 3 then CHR ''3'' else if d = 4 then CHR ''4'' else if d = 5 then CHR ''5''
      else if d = 6 then CHR ''6'' else if d = 7 then CHR ''7'' else if d = 8 then CHR ''8''
      else CHR ''9'')"

function string_of_nat :: "nat \<Rightarrow> string" where
  "string_of_nat n =
     (if n < 10 then [digit_char n]
      else string_of_nat (n div 10) @ [digit_char (n mod 10)])"
  by pat_completeness auto
termination
  by (relation "measure id") auto

declare string_of_nat.simps [simp del]

definition str_int :: "int \<Rightarrow> string" where
  "str_int i = (if i < 0 then ''-'' @ string_of_nat (nat (- i)) else string_of_nat (nat i))"


section \<open>The query-export pipeline (\<^verbatim>\<open>dune_to_sheets.py\<close>)\<close>

text \<open>
  The remote query API as the client sees it. Each request either raises (\<open>Inl\<close>) or
  yields the part of the JSON body the client reads:
  \<^item> \<open>latest_results q\<close>: \<^verbatim>\<open>GET /query/q/results\<close>, the value of
    \<^verbatim>\<open>data.get("result", {}).get("rows")\<close> (\<open>None\<close> when a key is absent);
  \<^item> \<open>start_execution q\<close>: \<^verbatim>\<open>POST /query/execute/q\<close>, the value of
    \<^verbatim>\<open>get("execution_id")\<close>;
  \<^item> \<open>execution_status e n\<close>: the \<open>n\<close>-th \<^verbatim>\<open>GET /execution/e/status\<close> of one polling loop
    (counted from 0), the value of \<^verbatim>\<open>get("state")\<close>;
  \<^item> \<open>execution_results e\<close>: \<^verbatim>\<open>GET /execution/e/results\<close>, read like \<open>latest_results\<close>.
\<close>

record 'v dune_api =
  latest_results :: "int \<Rightarrow> string + 'v dict list option"
  start_execution :: "int \<Rightarrow> string + string option"
  execution_status :: "string \<Rightarrow> nat \<Rightarrow> string + string option"
  execution_results :: "string \<Rightarrow> string + 'v dict list option"

text \<open>The tail shared by both retrieval methods: rows to DataFrame.\<close>

definition rows_to_frame :: "'v dict list option \<Rightarrow> 'v dataframe" where
  "rows_to_frame body =
     (let result_data = (case body of None \<Rightarrow> [] | Some rs \<Rightarrow> rs)
      in if result_data = [] then DataFrame_empty else DataFrame result_data)"

definition get_query_results :: "'v dune_api \<Rightarrow> int \<Rightarrow> exn + 'v dataframe" where
  "get_query_results api query_id =
     (case latest_results api query_id of
        Inl m \<Rightarrow> Inl (HTTPError m)
      | Inr body \<Rightarrow> Inr (rows_to_frame body))"

text \<open>\<^verbatim>\<open>f"{state}"\<close> for the value of \<^verbatim>\<open>get("state")\<close>.\<close>

fun str_state :: "string option \<Rightarrow> string" where
  "str_state None = ''None''"
| "str_state (Some s) = s"

text \<open>
  The polling loop \<^verbatim>\<open>while True\<close> of \<^verbatim>\<open>execute_query\<close>. It has no bound in the source, so
  it is a partial function: \<open>None\<close> is a loop that never ends. \<^verbatim>\<open>time.sleep(5)\<close> only
  passes time.
\<close>

partial_function (option) poll ::
  "(nat \<Rightarrow> string + string option) \<Rightarrow> nat \<Rightarrow> (exn + unit) option" where
  "poll status n =
     (case status n of
        Inl m \<Rightarrow> Some (Inl (HTTPError m))
      | Inr state \<Rightarrow>
          if state = Some ''EXECUTING'' \<or> state = Some ''PENDING'' then poll status (Suc n)
          else if state = Some ''COMPLETED'' then Some (Inr ())
          else Some (Inl (Exception (''Query execution failed with state: '' @ str_state state))))"

definition execute_query :: "'v dune_api \<Rightarrow> int \<Rightarrow> (exn + 'v dataframe) option" where
  "execute_query api query_id =
     (case start_execution api query_id of
        Inl m \<Rightarrow> Some (Inl (HTTPError m))
      | Inr execution_id \<Rightarrow>
          (case execution_id of
             None \<Rightarrow> Some (Inl (Exception ''Failed to start query execution''))
           | Some eid \<Rightarrow>
               if eid = [] then Some (Inl (Exception ''Failed to start query execution''))
               else
                 (case poll (execution_status api eid) 0 of
                    None \<Rightarrow> None
                  | Some (Inl e) \<Rightarrow> Some (Inl e)
                  | Some (Inr _) \<Rightarrow>
                      (case execution_results api eid of
                         Inl m \<Rightarrow> Some (Inl (HTTPError m))
                       | Inr body \<Rightarrow> Some (Inr (rows_to_frame body))))))"

text \<open>\<^verbatim>\<open>CSVExporter\<close>, given its \<^verbatim>\<open>output_dir\<close>; both methods return the path written.\<close>

definition save_dataframe :: "string \<Rightarrow> 'v dataframe \<Rightarrow> string \<Rightarrow> 'v fs \<Rightarrow> string \<times> 'v fs" where
  "save_dataframe output_dir df filename fs =
     (let filepath = path_join output_dir filename
      in (filepath, fs(filepath \<mapsto> to_csv True df)))"

definition append_dataframe :: "string \<Rightarrow> 'v dataframe \<Rightarrow> string \<Rightarrow> 'v fs \<Rightarrow> string \<times> 'v fs" where
  "append_dataframe output_dir df filename fs =
     (let filepath = path_join output_dir filename;
          write_header = (fs filepath = None);
          old = (case fs filepath of None \<Rightarrow> [] | Some ls \<Rightarrow> ls)
      in (filepath, fs(filepath \<mapsto> old @ to_csv write_header df)))"

text \<open>The dictionary \<^verbatim>\<open>query_to_csv\<close> returns.\<close>

record csv_result =
  rows_saved :: nat
  columns_saved :: nat
  filepath :: string
  filename :: string

text \<open>The \<^verbatim>\<open>if execute_fresh: ... else: ...\<close> that opens all three public methods.\<close>

definition get_dataframe :: "'v dune_api \<Rightarrow> int \<Rightarrow> bool \<Rightarrow> (exn + 'v dataframe) option" where
  "get_dataframe api query_id execute_fresh =
     (if execute_fresh then execute_query api query_id
      else Some (get_query_results api query_id))"

definition get_data_as_csv_string ::
  "'v dune_api \<Rightarrow> int \<Rightarrow> bool \<Rightarrow> (exn + 'v csv_line list) option" where
  "get_data_as_csv_string api query_id execute_fresh =
     (case (if execute_fresh then execute_query api query_id
            else Some (get_query_results api query_id)) of
        None \<Rightarrow> None
      | Some (Inl e) \<Rightarrow> Some (Inl e)
      | Some (Inr df) \<Rightarrow> Some (Inr (to_csv True df)))"

text \<open>
  \<^verbatim>\<open>query_to_csv\<close>. \<open>timestamp\<close> is what \<^verbatim>\<open>time.strftime("%Y%m%d_%H%M%S")\<close> returns at the
  call; \<open>filename = None\<close> is the default argument. The result pairs what the call
  returns or raises with the file system it leaves.
\<close>

definition query_to_csv ::
  "'v dune_api \<Rightarrow> string \<Rightarrow> string \<Rightarrow> int \<Rightarrow> string option \<Rightarrow> bool \<Rightarrow> 'v fs
     \<Rightarrow> ((exn + csv_result) \<times> 'v fs) option" where
  "query_to_csv api output_dir timestamp query_id filename_arg execute_fresh fs =
     (case (if execute_fresh then execute_query api query_id
            else Some (get_query_results api query_id)) of
        None \<Rightarrow> None
      | Some (Inl e) \<Rightarrow> Some (Inl e, fs)
      | Some (Inr df) \<Rightarrow>
          if empty_df df then Some (Inl (Exception ''No data returned from Dune query''), fs)
          else
            (let fname = (case filename_arg of
                            None \<Rightarrow> ''dune_query_'' @ str_int query_id @ ''_'' @ timestamp @ ''.csv''
                          | Some f \<Rightarrow> f);
                 (fpath, fs') = save_dataframe output_dir df fname fs
             in Some (Inr \<lparr>rows_saved = length (rows df), columns_saved = length (columns df),
                           filepath = fpath, filename = fname\<rparr>, fs')))"

text \<open>
  The loop of \<^verbatim>\<open>main\<close>, inside its \<^verbatim>\<open>try\<close>: \<open>i\<close> is the counter of \<^verbatim>\<open>enumerate\<close>, \<open>n\<close> is
  \<^verbatim>\<open>len(query_ids)\<close>, \<open>out\<close> the lines printed so far. An exception leaves the loop; it is
  returned with the state at that point.
\<close>

fun export_loop ::
  "'v dune_api \<Rightarrow> string \<Rightarrow> string \<Rightarrow> nat \<Rightarrow> nat \<Rightarrow> int list \<Rightarrow> string list \<Rightarrow> 'v fs
     \<Rightarrow> (exn option \<times> string list \<times> 'v fs) option" where
  "export_loop api output_dir timestamp n i [] out fs = Some (None, out, fs)"
| "export_loop api output_dir timestamp n i (query_id # rest) out fs =
     (let fname = ''morpho_vault_data_'' @ str_int query_id @ ''.csv'';
          out1 = out @ [''Processing query '' @ string_of_nat i @ ''/'' @ string_of_nat n
                          @ '': '' @ str_int query_id]
      in case query_to_csv api output_dir timestamp query_id (Some fname) False fs of
           None \<Rightarrow> None
         | Some (Inl e, fs') \<Rightarrow> Some (Some e, out1, fs')
         | Some (Inr result, fs') \<Rightarrow>
             export_loop api output_dir timestamp n (Suc i) rest
               (out1 @ [''Saved '' @ string_of_nat (rows_saved result) @ '' rows to ''
                          @ filepath result]) fs')"

definition query_ids :: "int list" where
  "query_ids = [5455942, 5462213, 5462219, 5462222]"

text \<open>
  \<^verbatim>\<open>main\<close> of \<^verbatim>\<open>dune_to_sheets.py\<close>. \<open>api_key\<close> is \<^verbatim>\<open>os.getenv("DUNE_API_KEY")\<close>. The first
  component is the exception that leaves \<^verbatim>\<open>main\<close> uncaught, if any; the \<^verbatim>\<open>except\<close> clause
  around the loop prints what it catches and \<^verbatim>\<open>main\<close> returns normally.
\<close>

definition main_dune_to_sheets ::
  "string option \<Rightarrow> 'v dune_api \<Rightarrow> string \<Rightarrow> 'v fs \<Rightarrow> (exn option \<times> string list \<times> 'v fs) option" where
  "main_dune_to_sheets api_key api timestamp fs =
     (if api_key = None \<or> api_key = Some [] then
        Some (Some (Exception ''DUNE_API_KEY environment variable not set''), [], fs)
      else
        (case export_loop api ''output'' timestamp (length query_ids) 1 query_ids
                [''Fetching data and saving to CSV files...''] fs of
           None \<Rightarrow> None
         | Some (None, out, fs') \<Rightarrow> Some (None, out, fs')
         | Some (Some e, out, fs') \<Rightarrow> Some (None, out @ [''Error: '' @ str_exn e], fs')))"


section \<open>The historical-series fetcher (\<^verbatim>\<open>defi_llama_validation.py\<close>)\<close>

text \<open>A vault descriptor of \<^verbatim>\<open>morpho_vaults.json\<close>.\<close>

record vault =
  project :: string
  chain :: string
  symbol :: string
  pool_id :: string

text \<open>
  \<^verbatim>\<open>morpho_vaults.json\<close> as \<^verbatim>\<open>open\<close> and \<^verbatim>\<open>json.load\<close> find it: absent, not JSON (with the
  decoder's message), or the list of vault descriptors.
\<close>

datatype static_file = File_Missing | File_Invalid string | File_Json "vault list"

text \<open>
  The chart endpoint: \<^verbatim>\<open>requests.get\<close> raises, or answers with a status code and a body.
  The body is read only by \<^verbatim>\<open>response.json()\<close>, which raises on a body that is not JSON;
  of a JSON body the script reads the \<^verbatim>\<open>data\<close> field alone (\<open>None\<close>: no such field).
\<close>

datatype 'v chart_body = Not_Json string | Json "'v dict list option"

datatype 'v chart_reply = Request_Failed string | Response int "'v chart_body"

definition OUTPUT_DIR :: string where
  "OUTPUT_DIR = ''data/validation''"

text \<open>
  \<^verbatim>\<open>get_historical_data\<close>: what it returns (\<open>Inr None\<close> is Python's \<^verbatim>\<open>None\<close>) or raises, and the
  lines it prints.
\<close>

definition get_historical_data ::
  "(string \<Rightarrow> 'v chart_reply) \<Rightarrow> string \<Rightarrow> (exn + 'v dict list option) \<times> string list" where
  "get_historical_data chart pid =
     (let out = [''Fetching historical data for pool '' @ pid @ ''...'']
      in case chart pid of
           Request_Failed m \<Rightarrow> (Inl (HTTPError m), out)
         | Response status_code body \<Rightarrow>
             if status_code \<noteq> 200 then
               (Inr None, out @ [''Failed to fetch historical data for pool '' @ pid @ '': ''
                                   @ str_int status_code])
             else
               (case body of
                  Not_Json m \<Rightarrow> (Inl (JSONDecodeError m), out)
                | Json data \<Rightarrow>
                    if data = None \<or> data = Some [] then
                      (Inr None, out @ [''No historical data available for pool '' @ pid])
                    else (Inr data, out)))"

text \<open>
  The body of the loop \<^verbatim>\<open>for vault in vaults\<close> of \<^verbatim>\<open>main\<close>, for one vault: the exception
  it raises, if any, the output so far and the file system.
\<close>

definition process_vault ::
  "(string \<Rightarrow> 'v chart_reply) \<Rightarrow> vault \<Rightarrow> string list \<Rightarrow> 'v fs
     \<Rightarrow> exn option \<times> string list \<times> 'v fs" where
  "process_vault chart v out fs =
     (let out1 = out @ [''Processing '' @ symbol v @ '' with pool_id: '' @ pool_id v];
          (historical_data, printed) = get_historical_data chart (pool_id v);
          out2 = out1 @ printed
      in case historical_data of
           Inl e \<Rightarrow> (Some e, out2, fs)
         | Inr None \<Rightarrow> (None, out2 @ [''No historical data available for '' @ symbol v], fs)
         | Inr (Some data) \<Rightarrow>
             if data = [] then
               (None, out2 @ [''No historical data available for '' @ symbol v], fs)
             else
               (let df = DataFrame data;
                    fname = OUTPUT_DIR @ ''/'' @ project v @ ''_'' @ chain v @ ''_''
                              @ symbol v @ ''.csv''
                in (None, out2 @ [''Saved historical data to '' @ fname],
                    fs(fname \<mapsto> to_csv True df))))"

text \<open>
  The loop itself. Nothing in it catches an exception: one raised in the body leaves the
  loop and \<^verbatim>\<open>main\<close>, and is returned with the output and the file system at that point.
\<close>

fun process_vaults ::
  "(string \<Rightarrow> 'v chart_reply) \<Rightarrow> vault list \<Rightarrow> string list \<Rightarrow> 'v fs
     \<Rightarrow> exn option \<times> string list \<times> 'v fs" where
  "process_vaults chart [] out fs = (None, out, fs)"
| "process_vaults chart (v # rest) out fs =
     (case process_vault chart v out fs of
        (Some e, out', fs') \<Rightarrow> (Some e, out', fs')
      | (None, out', fs') \<Rightarrow> process_vaults chart rest out' fs')"

text \<open>
  \<^verbatim>\<open>main\<close> of \<^verbatim>\<open>defi_llama_validation.py\<close>: the first component is the exception that ends
  the run, if any.
\<close>

definition main_defi_llama_validation ::
  "static_file \<Rightarrow> (string \<Rightarrow> 'v chart_reply) \<Rightarrow> 'v fs \<Rightarrow> exn option \<times> string list \<times> 'v fs" where
  "main_defi_llama_validation static chart fs =
     (case static of
        File_Missing \<Rightarrow> (Some (FileNotFoundError ''morpho_vaults.json''), [], fs)
      | File_Invalid m \<Rightarrow> (Some (JSONDecodeError m), [], fs)
      | File_Json vaults \<Rightarrow> process_vaults chart vaults [] fs)"


section \<open>The cross-source validator (\<^verbatim>\<open>validation.py\<close>)\<close>

text \<open>
  A cell of a table as \<^verbatim>\<open>pd.read_csv\<close> and \<^verbatim>\<open>pd.to_datetime\<close> take it: a number, a text that
  parses as a date or date-time (given by its seconds since 1970-01-01 00:00), or any
  other text. A missing cell is \<open>None\<close>. A number is the real value of the cell's float64
  or int64; the arithmetic pandas does on numbers (\<^verbatim>\<open>mean\<close>, \<^verbatim>\<open>corr\<close>) is not redone here but
  enters the functions below as parameters.
\<close>

datatype cell = Num real | Time int | Text string

text \<open>
  A file as \<^verbatim>\<open>pd.read_csv\<close> finds it: it raises with a message, or yields a table. The disk
  maps the paths of the files that exist to their content.
\<close>

datatype csv_file = Unreadable string | Table "cell dataframe"

type_synonym disk = "string \<rightharpoonup> csv_file"

text \<open>The \<^verbatim>\<open>print\<close> statements of \<^verbatim>\<open>validation.py\<close>, one constructor each, with what they show.\<close>

datatype event =
    Starting
  | Vaults_Not_Found
  | Vaults_Invalid_Json
  | Loaded_Vaults nat
  | Dir_Not_Found string
  | Found_Matching string
  | No_Matching_Files
  | Processing_Pairs nat
  | Processing_File string
  | Reading string nat nat
  | No_Date_Column string
  | No_TVL_Column string
  | Available_Columns "string list"
  | Bad_Date_Column string
  | Error_Reading string
  | Created_File string
  | Shape nat nat
  | Date_Range "int option" "int option"
  | Records_DeFiLlama nat
  | Records_Dune nat
  | Records_Both nat
  | Correlation "real option"
  | Skipping string

text \<open>\<^verbatim>\<open>load_morpho_vaults\<close>: both exceptions are caught, reported and turned into \<^verbatim>\<open>[]\<close>.\<close>

definition load_morpho_vaults :: "static_file \<Rightarrow> vault list \<times> event list" where
  "load_morpho_vaults static =
     (case static of
        File_Missing \<Rightarrow> ([], [Vaults_Not_Found])
      | File_Invalid m \<Rightarrow> ([], [Vaults_Invalid_Json])
      | File_Json vaults \<Rightarrow> (vaults, []))"

text \<open>A matched pair, as the dictionary \<^verbatim>\<open>find_matching_files\<close> builds.\<close>

record pair =
  defillama_path :: string
  dune_path :: string
  pair_filename :: string

definition defillama_dir :: string where
  "defillama_dir = ''data/defillama''"

definition dune_dir :: string where
  "dune_dir = ''data/dune''"

definition validation_dir :: string where
  "validation_dir = ''data/validation''"

text \<open>
  \<^verbatim>\<open>find_matching_files\<close>. \<open>listing\<close> is what \<^verbatim>\<open>defillama_dir.glob("*.csv")\<close> yields, as file
  names in the order of the listing, or \<open>None\<close> when the directory does not exist;
  \<open>dune_exists\<close> is \<^verbatim>\<open>dune_dir.exists()\<close>.
\<close>

fun matching_pairs_of :: "disk \<Rightarrow> string list \<Rightarrow> pair list \<times> event list" where
  "matching_pairs_of disk [] = ([], [])"
| "matching_pairs_of disk (name # names) =
     (let (ps, ev) = matching_pairs_of disk names
      in if disk (dune_dir @ ''/'' @ name) \<noteq> None then
           (\<lparr>defillama_path = defillama_dir @ ''/'' @ name,
              dune_path = dune_dir @ ''/'' @ name,
              pair_filename = name\<rparr> # ps,
            Found_Matching name # ev)
         else (ps, ev))"

definition find_matching_files ::
  "string list option \<Rightarrow> bool \<Rightarrow> disk \<Rightarrow> pair list \<times> event list" where
  "find_matching_files listing dune_exists disk =
     (case listing of
        None \<Rightarrow> ([], [Dir_Not_Found defillama_dir])
      | Some names \<Rightarrow>
          if \<not> dune_exists then ([], [Dir_Not_Found dune_dir])
          else matching_pairs_of disk names)"

text \<open>\<^verbatim>\<open>str.lower\<close>, on ASCII letters.\<close>

definition lower_char :: "char \<Rightarrow> char" where
  "lower_char c =
     (case map_of (zip ''ABCDEFGHIJKLMNOPQRSTUVWXYZ'' ''abcdefghijklmnopqrstuvwxyz'') c of
        None \<Rightarrow> c
      | Some l \<Rightarrow> l)"

definition lower :: "string \<Rightarrow> string" where
  "lower s = map lower_char s"

definition date_candidates :: "string list" where
  "date_candidates = [''date'', ''day'', ''timestamp'', ''time'']"

definition tvl_candidates :: "string list" where
  "tvl_candidates = [''tvl'', ''tvl_amount_usd'', ''total_value_locked'', ''value'', ''tvlUsd'']"

text \<open>The cells of a column; a row too short for the column has a missing cell there.\<close>

fun index_of :: "'a \<Rightarrow> 'a list \<Rightarrow> nat" where
  "index_of x [] = 0"
| "index_of x (y # ys) = (if x = y then 0 else Suc (index_of x ys))"

definition cell_at :: "'v option list \<Rightarrow> nat \<Rightarrow> 'v option" where
  "cell_at r i = (if i < length r then r ! i else None)"

definition column :: "'v dataframe \<Rightarrow> string \<Rightarrow> 'v option list" where
  "column df col = map (\<lambda>r. cell_at r (index_of col (columns df))) (rows df)"

text \<open>
  \<^verbatim>\<open>pd.to_datetime\<close> on one cell: \<open>None\<close> when it raises (a text that is no date), else the
  time stamp in seconds, missing (NaT) for a missing cell. A number is taken as
  nanoseconds since 1970-01-01.
\<close>

fun to_datetime :: "cell option \<Rightarrow> int option option" where
  "to_datetime None = Some None"
| "to_datetime (Some (Time t)) = Some (Some t)"
| "to_datetime (Some (Num x)) = Some (Some \<lfloor>x / 1000000000\<rfloor>)"
| "to_datetime (Some (Text s)) = None"

text \<open>\<^verbatim>\<open>.dt.date\<close>: the calendar date, as days since 1970-01-01.\<close>

definition dt_date :: "int \<Rightarrow> int" where
  "dt_date t = t div 86400"

text \<open>
  A value cell as \<^verbatim>\<open>mean\<close> takes it: \<open>None\<close> when the column is not numeric (the
  aggregation raises), else the number, missing (NaN) for a missing cell.
\<close>

fun as_float :: "cell option \<Rightarrow> real option option" where
  "as_float None = Some None"
| "as_float (Some (Num x)) = Some (Some x)"
| "as_float (Some (Time t)) = None"
| "as_float (Some (Text s)) = None"

text \<open>
  \<^verbatim>\<open>mean\<close> of a group. The float64 mean of a non-empty list of numbers is pandas' own: it
  is the parameter \<open>mean\<close>, which gets the values of the group in row order. The missing
  values are skipped; a group without a value has a missing mean.
\<close>

definition mean_skipna :: "(real list \<Rightarrow> real) \<Rightarrow> real option list \<Rightarrow> real option" where
  "mean_skipna mean vs =
     (let xs = [x. Some x \<leftarrow> vs]
      in if xs = [] then None else Some (mean xs))"

text \<open>
  The mean over the reals, which \<^verbatim>\<open>mean\<close> computes up to the rounding of float64. It is
  used below on sample values only, for which the float64 sum and quotient are exact.
\<close>

definition exact_mean :: "real list \<Rightarrow> real" where
  "exact_mean xs = sum_list xs / real (length xs)"

text \<open>
  \<^verbatim>\<open>groupby('date')[value].mean().reset_index()\<close>: one row per date, dates ascending; a row
  without a date (NaT) belongs to no group.
\<close>

definition groupby_mean ::
  "(real list \<Rightarrow> real) \<Rightarrow> (int option \<times> real option) list \<Rightarrow> (int \<times> real option) list" where
  "groupby_mean mean rs =
     map (\<lambda>d. (d, mean_skipna mean [v. (Some d', v) \<leftarrow> rs, d' = d]))
       (sort (remdups [d. (Some d, v) \<leftarrow> rs]))"

text \<open>
  \<^verbatim>\<open>extract_tvl_data\<close> up to the aggregation: the column search, the selection of the
  two columns and the conversion of the dates. The result is the rows handed to
  \<^verbatim>\<open>groupby\<close>, one per row of the table, or \<open>None\<close> when the function gives up (a text in
  the value column makes \<^verbatim>\<open>mean\<close> raise, which the outer \<^verbatim>\<open>except\<close> reports).
\<close>

definition date_value_rows ::
  "cell dataframe \<Rightarrow> string \<Rightarrow> (int option \<times> real option) list option \<times> event list" where
  "date_value_rows df csv_path =
     (let ev = [Reading csv_path (length (rows df)) (length (columns df))];
          date_col = find (\<lambda>col. lower col \<in> set date_candidates) (columns df);
          tvl_col = find (\<lambda>col. lower col \<in> set (map lower tvl_candidates)) (columns df)
      in case date_col of
           None \<Rightarrow> (None, ev @ [No_Date_Column csv_path, Available_Columns (columns df)])
         | Some dc \<Rightarrow>
             (case tvl_col of
                None \<Rightarrow> (None, ev @ [No_TVL_Column csv_path, Available_Columns (columns df)])
              | Some tc \<Rightarrow>
                  (case those (map to_datetime (column df dc)) of
                     None \<Rightarrow> (None, ev @ [Bad_Date_Column csv_path])
                   | Some stamps \<Rightarrow>
                       (case those (map as_float (column df tc)) of
                          None \<Rightarrow> (None, ev @ [Error_Reading csv_path])
                        | Some vals \<Rightarrow>
                            (Some (zip (map (map_option dt_date) stamps) vals), ev)))))"

text \<open>
  \<^verbatim>\<open>extract_tvl_data\<close>: the (date, value) series of a file, or \<open>None\<close>, and what it prints.
  The series stands for the frame with the columns \<^verbatim>\<open>date\<close> and \<^verbatim>\<open>tvl_<source_name>\<close>.
\<close>

definition extract_tvl_data ::
  "(real list \<Rightarrow> real) \<Rightarrow> disk \<Rightarrow> string \<Rightarrow> string
     \<Rightarrow> (int \<times> real option) list option \<times> event list" where
  "extract_tvl_data mean disk csv_path source_name =
     (case disk csv_path of
        None \<Rightarrow> (None, [Error_Reading csv_path])
      | Some (Unreadable m) \<Rightarrow> (None, [Error_Reading csv_path])
      | Some (Table df) \<Rightarrow>
          (case date_value_rows df csv_path of
             (None, ev) \<Rightarrow> (None, ev)
           | (Some result_df, ev) \<Rightarrow> (Some (groupby_mean mean result_df), ev)))"

text \<open>
  \<^verbatim>\<open>pd.merge(..., on='date', how='outer')\<close>: the keys of both frames, ascending; for a key
  both frames have, every combination of their rows; for a key one frame lacks, the
  other frame's rows with a missing value in the lacking frame's column.
\<close>

definition merge_outer ::
  "(int \<times> real option) list \<Rightarrow> (int \<times> real option) list
     \<Rightarrow> (int \<times> real option \<times> real option) list" where
  "merge_outer l r =
     concat (map (\<lambda>d.
        let ls = [v. (d', v) \<leftarrow> l, d' = d];
            rs = [v. (d', v) \<leftarrow> r, d' = d]
        in if rs = [] then map (\<lambda>a. (d, a, None)) ls
           else if ls = [] then map (\<lambda>b. (d, None, b)) rs
           else [(d, a, b). a \<leftarrow> ls, b \<leftarrow> rs])
       (sort (remdups (map fst l @ map fst r))))"

text \<open>\<^verbatim>\<open>sort_values('date')\<close>\<close>

definition sort_values ::
  "(int \<times> real option \<times> real option) list \<Rightarrow> (int \<times> real option \<times> real option) list" where
  "sort_values m = sort_key fst m"

text \<open>\<^verbatim>\<open>merged_df[['tvl_defillama', 'tvl_dune']].dropna()\<close>\<close>

definition dropna ::
  "(int \<times> real option \<times> real option) list \<Rightarrow> (real \<times> real) list" where
  "dropna m = [(a, b). (d, Some a, Some b) \<leftarrow> m]"

text \<open>
  \<^verbatim>\<open>Series.corr\<close> is pandas' own: the functions below take it as the parameter \<open>corr\<close>, from
  two columns of equal length without missing values to a coefficient (\<open>None\<close> is NaN).
  \<open>pearson\<close> is the Pearson correlation coefficient over the reals that it computes up to
  rounding; it is NaN when a column has no variance.
\<close>

definition pearson :: "real list \<Rightarrow> real list \<Rightarrow> real option" where
  "pearson xs ys =
     (let n = real (length xs);
          mx = sum_list xs / n;
          my = sum_list ys / n;
          sxy = (\<Sum>(x, y) \<leftarrow> zip xs ys. (x - mx) * (y - my));
          sxx = (\<Sum>x \<leftarrow> xs. (x - mx)\<^sup>2);
          syy = (\<Sum>y \<leftarrow> ys. (y - my)\<^sup>2)
      in if sxx = 0 \<or> syy = 0 then None else Some (sxy / sqrt (sxx * syy)))"

text \<open>The table written to the validation file.\<close>

definition merged_frame :: "(int \<times> real option \<times> real option) list \<Rightarrow> cell dataframe" where
  "merged_frame m =
     \<lparr>columns = [''date'', ''tvl_defillama'', ''tvl_dune''],
      rows = map (\<lambda>(d, a, b). [Some (Time (d * 86400)), map_option Num a, map_option Num b]) m\<rparr>"

text \<open>\<^verbatim>\<open>min()\<close> and \<^verbatim>\<open>max()\<close> of the date column; missing for a table without rows.\<close>

definition min_date :: "(int \<times> real option \<times> real option) list \<Rightarrow> int option" where
  "min_date m = (case map fst m of [] \<Rightarrow> None | d # ds \<Rightarrow> Some (fold min ds d))"

definition max_date :: "(int \<times> real option \<times> real option) list \<Rightarrow> int option" where
  "max_date m = (case map fst m of [] \<Rightarrow> None | d # ds \<Rightarrow> Some (fold max ds d))"

text \<open>
  \<^verbatim>\<open>create_validation_file\<close>, for the two series \<^verbatim>\<open>main\<close> passes (the date columns hold
  calendar dates, so the two \<^verbatim>\<open>tz_localize\<close> branches are not taken): the merged table
  it returns, what it prints, and the disk with the validation file written.
\<close>

definition create_validation_file ::
  "(real list \<Rightarrow> real list \<Rightarrow> real option)
     \<Rightarrow> (int \<times> real option) list \<Rightarrow> (int \<times> real option) list \<Rightarrow> string \<Rightarrow> disk
     \<Rightarrow> (int \<times> real option \<times> real option) list option \<times> event list \<times> disk" where
  "create_validation_file corr defillama_df dune_df fname disk =
     (let merged_df = sort_values (merge_outer defillama_df dune_df);
          output_path = validation_dir @ ''/'' @ ''validation_'' @ fname;
          disk' = disk(output_path \<mapsto> Table (merged_frame merged_df));
          defillama_count = length [a. (d, Some a, b) \<leftarrow> merged_df];
          dune_count = length [b. (d, a, Some b) \<leftarrow> merged_df];
          both_count = length [(a, b). (d, Some a, Some b) \<leftarrow> merged_df];
          ev = [Created_File output_path,
                Shape (length merged_df) 3,
                Date_Range (min_date merged_df) (max_date merged_df),
                Records_DeFiLlama defillama_count,
                Records_Dune dune_count,
                Records_Both both_count];
          overlapping = dropna merged_df;
          ev_corr = (if both_count > 1 then
                       (if length overlapping > 1 then
                          [Correlation (corr (map fst overlapping) (map snd overlapping))]
                        else [])
                     else [])
      in (Some merged_df, ev @ ev_corr, disk'))"

text \<open>The body of the loop \<^verbatim>\<open>for pair in matching_pairs\<close> of \<^verbatim>\<open>main\<close>.\<close>

definition process_pair ::
  "(real list \<Rightarrow> real) \<Rightarrow> (real list \<Rightarrow> real list \<Rightarrow> real option) \<Rightarrow> pair \<Rightarrow> event list
     \<Rightarrow> disk \<Rightarrow> event list \<times> disk" where
  "process_pair mean corr p out disk =
     (let out1 = out @ [Processing_File (pair_filename p)];
          (defillama_df, ev1) = extract_tvl_data mean disk (defillama_path p) ''defillama'';
          (dune_df, ev2) = extract_tvl_data mean disk (dune_path p) ''dune'';
          out2 = out1 @ ev1 @ ev2
      in case (defillama_df, dune_df) of
           (Some l, Some r) \<Rightarrow>
             (let (validation_df, ev3, disk') =
                    create_validation_file corr l r (pair_filename p) disk
              in case validation_df of
                   None \<Rightarrow> (out2 @ ev3, disk')
                 | Some m \<Rightarrow>
                     (let overlapping = dropna m
                      in (out2 @ ev3
                            @ (if length overlapping > 1 then
                                 [Correlation (corr (map fst overlapping) (map snd overlapping))]
                               else []),
                          disk')))
         | _ \<Rightarrow> (out2 @ [Skipping (pair_filename p)], disk))"

fun process_pairs ::
  "(real list \<Rightarrow> real) \<Rightarrow> (real list \<Rightarrow> real list \<Rightarrow> real option) \<Rightarrow> pair list
     \<Rightarrow> event list \<Rightarrow> disk \<Rightarrow> event list \<times> disk" where
  "process_pairs mean corr [] out disk = (out, disk)"
| "process_pairs mean corr (p # ps) out disk =
     (let (out', disk') = process_pair mean corr p out disk
      in process_pairs mean corr ps out' disk')"

text \<open>\<^verbatim>\<open>main\<close> of \<^verbatim>\<open>validation.py\<close>: what it prints and the disk it leaves.\<close>

definition main_validation ::
  "(real list \<Rightarrow> real) \<Rightarrow> (real list \<Rightarrow> real list \<Rightarrow> real option)
     \<Rightarrow> static_file \<Rightarrow> string list option \<Rightarrow> bool \<Rightarrow> disk \<Rightarrow> event list \<times> disk" where
  "main_validation mean corr static listing dune_exists disk =
     (let (vaults, ev0) = load_morpho_vaults static;
          out = [Starting] @ ev0 @ [Loaded_Vaults (length vaults)];
          (matching_pairs, ev1) = find_matching_files listing dune_exists disk
      in if matching_pairs = [] then (out @ ev1 @ [No_Matching_Files], disk)
         else process_pairs mean corr matching_pairs
                (out @ ev1 @ [Processing_Pairs (length matching_pairs)]) disk)"


section \<open>Conditions on the inputs, and sample inputs\<close>

text \<open>
  \<open>still_running status n\<close>: the first \<open>n\<close> polls all answered with a non-terminal state.
\<close>

fun still_running :: "(nat \<Rightarrow> string + string option) \<Rightarrow> nat \<Rightarrow> bool" where
  "still_running status 0 = True"
| "still_running status (Suc n) =
     (still_running status n
      \<and> (status n = Inr (Some ''EXECUTING'') \<or> status n = Inr (Some ''PENDING'')))"

text \<open>The remote result set has zero rows: the rows are absent or an empty list.\<close>

definition zero_rows :: "'v dict list option \<Rightarrow> bool" where
  "zero_rows body \<longleftrightarrow> (case body of None \<Rightarrow> True | Some rs \<Rightarrow> rs = [])"

text \<open>What the polling loop can raise.\<close>

definition poll_raised :: "exn + unit \<Rightarrow> bool" where
  "poll_raised r \<longleftrightarrow>
     (case r of
        Inl e \<Rightarrow> (\<exists>m. e = HTTPError m)
                 \<or> (\<exists>st. e = Exception (''Query execution failed with state: '' @ st))
      | Inr u \<Rightarrow> True)"

text \<open>
  A remote whose execution of any query is pending, then executing, then failed.
\<close>

definition failing_api :: "int dune_api" where
  "failing_api =
     \<lparr>latest_results = (\<lambda>q. Inr (Some [[(''day'', 1)]])),
      start_execution = (\<lambda>q. Inr (Some ''01HX'')),
      execution_status = (\<lambda>e n. Inr (Some (if n = 0 then ''PENDING''
                                           else if n = 1 then ''EXECUTING'' else ''FAILED''))),
      execution_results = (\<lambda>e. Inr (Some [[(''day'', 1)]]))\<rparr>"

text \<open>A remote whose queries all have an empty result set, cached or freshly executed.\<close>

definition empty_api :: "int dune_api" where
  "empty_api =
     \<lparr>latest_results = (\<lambda>q. Inr (Some [])),
      start_execution = (\<lambda>q. Inr (Some ''01HY'')),
      execution_status = (\<lambda>e n. Inr (Some (if n = 0 then ''PENDING'' else ''COMPLETED''))),
      execution_results = (\<lambda>e. Inr None)\<rparr>"

text \<open>
  A remote where the first query of \<^verbatim>\<open>main\<close> has an empty result set and every other query
  has one row.
\<close>

definition first_empty_api :: "int dune_api" where
  "first_empty_api =
     \<lparr>latest_results = (\<lambda>q. if q = 5455942 then Inr (Some []) else Inr (Some [[(''day'', 1)]])),
      start_execution = (\<lambda>q. Inr (Some ''01HZ'')),
      execution_status = (\<lambda>e n. Inr (Some ''COMPLETED'')),
      execution_results = (\<lambda>e. Inr (Some []))\<rparr>"

text \<open>
  A remote where the second query of \<^verbatim>\<open>main\<close> has an empty result set and every other
  query has one row.
\<close>

definition second_empty_api :: "int dune_api" where
  "second_empty_api =
     \<lparr>latest_results = (\<lambda>q. if q = 5462213 then Inr (Some []) else Inr (Some [[(''day'', 1)]])),
      start_execution = (\<lambda>q. Inr (Some ''01HW'')),
      execution_status = (\<lambda>e n. Inr (Some ''COMPLETED'')),
      execution_results = (\<lambda>e. Inr (Some []))\<rparr>"

text \<open>
  The fetch of a vault yields no data: the status is not 200, or the JSON payload has no
  \<^verbatim>\<open>data\<close> field or an empty one.
\<close>

definition no_data_reply :: "'v chart_reply \<Rightarrow> bool" where
  "no_data_reply reply \<longleftrightarrow>
     (case reply of
        Request_Failed m \<Rightarrow> False
      | Response status_code body \<Rightarrow>
          status_code \<noteq> 200 \<or> body = Json None \<or> body = Json (Some []))"

text \<open>The lines printed for a vault whose fetch yields no data.\<close>

definition no_data_lines :: "(string \<Rightarrow> 'v chart_reply) \<Rightarrow> vault \<Rightarrow> string list" where
  "no_data_lines chart v =
     [''Processing '' @ symbol v @ '' with pool_id: '' @ pool_id v]
     @ snd (get_historical_data chart (pool_id v))
     @ [''No historical data available for '' @ symbol v]"

text \<open>Three vaults; the chart endpoint answers 404 for the second and has data for the others.\<close>

definition vault_a :: vault where
  "vault_a = \<lparr>project = ''morpho'', chain = ''Ethereum'', symbol = ''USDC'', pool_id = ''p1''\<rparr>"

definition vault_b :: vault where
  "vault_b = \<lparr>project = ''morpho'', chain = ''Base'', symbol = ''WETH'', pool_id = ''p2''\<rparr>"

definition vault_c :: vault where
  "vault_c = \<lparr>project = ''morpho'', chain = ''Ethereum'', symbol = ''DAI'', pool_id = ''p3''\<rparr>"

definition sample_chart :: "string \<Rightarrow> int chart_reply" where
  "sample_chart pid =
     (if pid = ''p2'' then Response 404 (Not_Json ''Not Found'')
      else Response 200 (Json (Some [[(''tvlUsd'', 5)]])))"

text \<open>
  Two files of the same name: the first has two samples on day 0 and one on day 1, the
  second one sample on day 1 and a row without a value on day 2.
\<close>

definition sample_defillama :: "cell dataframe" where
  "sample_defillama =
     \<lparr>columns = [''timestamp'', ''tvlUsd'', ''apy''],
      rows = [[Some (Time 0), Some (Num 100), Some (Num 1)],
              [Some (Time 3600), Some (Num 110), Some (Num 1)],
              [Some (Time 86400), Some (Num 120), None]]\<rparr>"

definition sample_dune :: "cell dataframe" where
  "sample_dune =
     \<lparr>columns = [''Day'', ''tvl''],
      rows = [[Some (Time 86400), Some (Num 118)],
              [Some (Time 172800), None]]\<rparr>"

definition sample_disk :: disk where
  "sample_disk =
     [''data/defillama/a.csv'' \<mapsto> Table sample_defillama,
      ''data/dune/a.csv'' \<mapsto> Table sample_dune]"

text \<open>The value a series has on a date; missing when the series lacks the date.\<close>

definition value_on :: "(int \<times> real option) list \<Rightarrow> int \<Rightarrow> real option" where
  "value_on s d = (case map_of s d of None \<Rightarrow> None | Some v \<Rightarrow> v)"

text \<open>The print of a correlation coefficient.\<close>

fun is_correlation :: "event \<Rightarrow> bool" where
  "is_correlation (Correlation c) = True"
| "is_correlation e = False"

text \<open>Two series that share two dates.\<close>

definition series_a :: "(int \<times> real option) list" where
  "series_a = [(0, Some 1), (1, Some 2), (2, Some 7)]"

definition series_b :: "(int \<times> real option) list" where
  "series_b = [(0, Some 2), (1, Some 4), (3, Some 9)]"


section \<open>Properties of the query-export pipeline\<close>


lemma poll_step:
  "status n = Inr (Some ''EXECUTING'') \<or> status n = Inr (Some ''PENDING'')
     \<Longrightarrow> poll status n = poll status (Suc n)"
  by (subst poll.simps) auto

lemma poll_still_running: "still_running status n \<Longrightarrow> poll status 0 = poll status n"
proof (induction n)
  case 0
  show ?case by simp
next
  case (Suc n)
  then have "poll status 0 = poll status n" by simp
  also have "poll status n = poll status (Suc n)"
    using Suc.prems by (intro poll_step) simp
  finally show ?case .
qed

lemma poll_failed:
  assumes "status n = Inr st"
    and "st \<noteq> Some ''EXECUTING''" and "st \<noteq> Some ''PENDING''" and "st \<noteq> Some ''COMPLETED''"
  shows "poll status n
           = Some (Inl (Exception (''Query execution failed with state: '' @ str_state st)))"
  using assms by (subst poll.simps) simp

lemma poll_completed:
  "status n = Inr (Some ''COMPLETED'') \<Longrightarrow> poll status n = Some (Inr ())"
  by (subst poll.simps) simp

text \<open>
  C7. \<^verbatim>\<open>append_dataframe\<close> writes a header exactly when the target file does not exist
  yet: the file afterwards is its old content followed by the data frame's lines, with
  a header line in front of them if and only if there was no file. Called twice on a
  file that does not exist, the first call writes header plus rows and the second rows
  only, so the file holds exactly one header line.
\<close>

theorem append_dataframe_header_iff_new:
  fixes fs :: "'v fs"
  shows "snd (append_dataframe output_dir df name fs) (path_join output_dir name)
           = Some ((case fs (path_join output_dir name) of None \<Rightarrow> [] | Some ls \<Rightarrow> ls)
                   @ to_csv (fs (path_join output_dir name) = None) df)
         \<and> (fs (path_join output_dir name) = None \<longrightarrow>
              snd (append_dataframe output_dir df name fs) (path_join output_dir name)
                = Some (Header (columns df) # map Row (rows df))
              \<and> snd (append_dataframe output_dir df2 name
                       (snd (append_dataframe output_dir df name fs))) (path_join output_dir name)
                = Some (Header (columns df) # map Row (rows df) @ map Row (rows df2))
              \<and> length (filter is_header
                          (the (snd (append_dataframe output_dir df2 name
                                  (snd (append_dataframe output_dir df name fs)))
                                (path_join output_dir name)))) = 1)"
proof -
  have rows_no_header: "filter is_header (map Row rs) = []" for rs :: "'v option list list"
    by (induction rs) auto
  show ?thesis
    by (auto simp: append_dataframe_def Let_def to_csv_def rows_no_header)
qed

theorem append_dataframe_header_iff_new_witness:
  "(Map.empty :: int fs) (path_join ''output'' ''a.csv'') = None
   \<and> snd (append_dataframe ''output'' \<lparr>columns = [''day'', ''tvl''], rows = [[Some (3::int), Some 100]]\<rparr>
         ''a.csv''
         (snd (append_dataframe ''output''
                 \<lparr>columns = [''day'', ''tvl''], rows = [[Some 1, Some 80], [Some 2, Some 90]]\<rparr>
                 ''a.csv'' Map.empty))) ''output/a.csv''
     = Some [Header [''day'', ''tvl''], Row [Some 1, Some 80], Row [Some 2, Some 90],
             Row [Some 3, Some 100]]"
  using append_dataframe_header_iff_new
    [where fs = "Map.empty :: int fs" and output_dir = "''output''" and name = "''a.csv''"
       and df = "\<lparr>columns = [''day'', ''tvl''], rows = [[Some 1, Some 80], [Some 2, Some 90]]\<rparr>"
       and ?df2.0 = "\<lparr>columns = [''day'', ''tvl''], rows = [[Some (3::int), Some 100]]\<rparr>"]
  by (simp add: path_join_def)

lemma poll_raises_aux:
  assumes "poll status n = Some r"
  shows "poll_raised r"
proof (rule poll.raw_induct [where P = "\<lambda>s k r. poll_raised r", OF _ assms])
  fix loop :: "(nat \<Rightarrow> string + string option) \<Rightarrow> nat \<Rightarrow> (exn + unit) option"
    and s k y
  assume IH: "\<And>s' k' y'. loop s' k' = Some y' \<Longrightarrow> poll_raised y'"
    and body: "(case s k of
                  Inl m \<Rightarrow> Some (Inl (HTTPError m))
                | Inr state \<Rightarrow>
                    if state = Some ''EXECUTING'' \<or> state = Some ''PENDING'' then loop s (Suc k)
                    else if state = Some ''COMPLETED'' then Some (Inr ())
                    else Some (Inl (Exception (''Query execution failed with state: ''
                                                @ str_state state)))) = Some y"
  show "poll_raised y"
  proof (cases "s k")
    case (Inl m)
    with body show ?thesis by (auto simp: poll_raised_def)
  next
    case (Inr state)
    show ?thesis
    proof (cases "state = Some ''EXECUTING'' \<or> state = Some ''PENDING''")
      case True
      with Inr body have "loop s (Suc k) = Some y" by auto
      then show ?thesis by (rule IH)
    next
      case False
      with Inr body show ?thesis
        by (cases "state = Some ''COMPLETED''") (auto simp: poll_raised_def)
    qed
  qed
qed

lemma poll_raises:
  "poll status n = Some r \<Longrightarrow> r = Inl e
     \<Longrightarrow> (\<exists>m. e = HTTPError m)
         \<or> (\<exists>st. e = Exception (''Query execution failed with state: '' @ st))"
  using poll_raises_aux [of status n r] by (simp add: poll_raised_def)

lemma execute_query_raises:
  assumes "execute_query api query_id = Some (Inl e)"
  shows "(\<exists>m. e = HTTPError m)
         \<or> e = Exception ''Failed to start query execution''
         \<or> (\<exists>st. e = Exception (''Query execution failed with state: '' @ st))"
proof (cases "start_execution api query_id")
  case (Inl m)
  with assms show ?thesis by (auto simp: execute_query_def)
next
  case (Inr execution_id)
  show ?thesis
  proof (cases "execution_id = None \<or> execution_id = Some []")
    case True
    with Inr assms show ?thesis by (auto simp: execute_query_def)
  next
    case False
    then obtain eid where eid: "execution_id = Some eid" "eid \<noteq> []" by auto
    show ?thesis
    proof (cases "poll (execution_status api eid) 0")
      case None
      with Inr eid assms show ?thesis by (simp add: execute_query_def)
    next
      case (Some r)
      show ?thesis
      proof (cases r)
        case (Inl e')
        with Some Inr eid assms have "e' = e" by (simp add: execute_query_def)
        with poll_raises [OF Some Inl] show ?thesis by blast
      next
        case (Inr u)
        with Some \<open>start_execution api query_id = Inr execution_id\<close> eid assms show ?thesis
          by (auto simp: execute_query_def split: sum.splits)
      qed
    qed
  qed
qed

lemma execute_query_not_no_data:
  "execute_query api query_id \<noteq> Some (Inl (Exception ''No data returned from Dune query''))"
proof
  assume "execute_query api query_id = Some (Inl (Exception ''No data returned from Dune query''))"
  from execute_query_raises [OF this] show False by auto
qed

lemma get_query_results_not_no_data:
  "get_query_results api query_id \<noteq> Inl (Exception ''No data returned from Dune query'')"
  by (simp add: get_query_results_def split: sum.splits)

lemma empty_df_rows_to_frame: "zero_rows body \<Longrightarrow> rows_to_frame body = DataFrame_empty"
  by (auto simp: zero_rows_def rows_to_frame_def split: option.splits)

text \<open>
  C5. In fresh-execution mode (\<^verbatim>\<open>execute_fresh=True\<close>), when the execution was started and
  the polls answer "EXECUTING" or "PENDING" \<open>n\<close> times and then a state \<open>st\<close> that is none
  of "EXECUTING", "PENDING", "COMPLETED" (for instance "FAILED"), \<^verbatim>\<open>execute_query\<close> returns
  by raising the exception whose message is "Query execution failed with state: "
  followed by that state, \<^verbatim>\<open>query_to_csv\<close> raises the same exception, and the file system
  after the call is the file system before it: no file is written.
\<close>

theorem execute_fresh_failed_state_raises:
  fixes api :: "'v dune_api" and fs :: "'v fs"
  assumes started: "start_execution api query_id = Inr (Some eid)" "eid \<noteq> []"
    and waiting: "still_running (execution_status api eid) n"
    and terminal: "execution_status api eid n = Inr st"
    and other: "st \<noteq> Some ''EXECUTING''" "st \<noteq> Some ''PENDING''" "st \<noteq> Some ''COMPLETED''"
  shows "execute_query api query_id
           = Some (Inl (Exception (''Query execution failed with state: '' @ str_state st)))
         \<and> query_to_csv api output_dir timestamp query_id name True fs
           = Some (Inl (Exception (''Query execution failed with state: '' @ str_state st)), fs)"
proof -
  have "poll (execution_status api eid) 0 = poll (execution_status api eid) n"
    using waiting by (rule poll_still_running)
  also have "\<dots> = Some (Inl (Exception (''Query execution failed with state: '' @ str_state st)))"
    using terminal other by (rule poll_failed)
  finally have p: "poll (execution_status api eid) 0
      = Some (Inl (Exception (''Query execution failed with state: '' @ str_state st)))" .
  have e: "execute_query api query_id
      = Some (Inl (Exception (''Query execution failed with state: '' @ str_state st)))"
    using started p by (simp add: execute_query_def)
  then show ?thesis by (simp add: query_to_csv_def)
qed

theorem execute_fresh_failed_state_raises_witness:
  "start_execution failing_api 7 = Inr (Some ''01HX'')
   \<and> still_running (execution_status failing_api ''01HX'') 2
   \<and> execution_status failing_api ''01HX'' 2 = Inr (Some ''FAILED'')
   \<and> execute_query failing_api 7
       = Some (Inl (Exception ''Query execution failed with state: FAILED''))
   \<and> query_to_csv failing_api ''output'' ''20240101_000000'' 7 None True Map.empty
       = Some (Inl (Exception ''Query execution failed with state: FAILED''), Map.empty)"
proof -
  have w: "still_running (execution_status failing_api ''01HX'') 2"
    by (simp add: failing_api_def numeral_2_eq_2)
  have t: "execution_status failing_api ''01HX'' 2 = Inr (Some ''FAILED'')"
    by (simp add: failing_api_def)
  have s: "start_execution failing_api 7 = Inr (Some ''01HX'')"
    by (simp add: failing_api_def)
  show ?thesis
    using execute_fresh_failed_state_raises
      [where api = failing_api and query_id = 7 and eid = "''01HX''" and n = 2
         and st = "Some ''FAILED''" and output_dir = "''output''"
         and timestamp = "''20240101_000000''" and name = None and fs = Map.empty, OF s _ w t]
    using w t s by simp
qed

text \<open>
  C10. When the remote result set of a query has zero rows (in cached mode the
  latest-results request answers with no rows; in fresh mode the execution starts, the
  polls reach "COMPLETED" and the results request answers with no rows),
  \<^verbatim>\<open>get_dataframe\<close> returns the empty DataFrame and \<^verbatim>\<open>get_data_as_csv_string\<close> returns the
  CSV text of the empty DataFrame (a header line without columns, no data row),
  neither raising; \<^verbatim>\<open>query_to_csv\<close> on the same input raises "No data returned from Dune
  query". No call of \<^verbatim>\<open>get_dataframe\<close> or \<^verbatim>\<open>get_data_as_csv_string\<close>, on any remote, raises
  that error.
\<close>

theorem zero_rows_raise_only_in_query_to_csv:
  fixes api :: "'v dune_api" and fs :: "'v fs"
  assumes remote:
      "if execute_fresh
       then start_execution api query_id = Inr (Some eid) \<and> eid \<noteq> []
            \<and> still_running (execution_status api eid) n
            \<and> execution_status api eid n = Inr (Some ''COMPLETED'')
            \<and> execution_results api eid = Inr body
       else latest_results api query_id = Inr body"
    and zero: "zero_rows body"
  shows "get_dataframe api query_id execute_fresh = Some (Inr DataFrame_empty)
         \<and> get_data_as_csv_string api query_id execute_fresh = Some (Inr [Header []])
         \<and> query_to_csv api output_dir timestamp query_id name execute_fresh fs
             = Some (Inl (Exception ''No data returned from Dune query''), fs)
         \<and> (\<forall>(api' :: 'v dune_api) q fresh.
                get_dataframe api' q fresh
                  \<noteq> Some (Inl (Exception ''No data returned from Dune query''))
                \<and> get_data_as_csv_string api' q fresh
                  \<noteq> Some (Inl (Exception ''No data returned from Dune query'')))"
proof -
  have df: "(if execute_fresh then execute_query api query_id
             else Some (get_query_results api query_id)) = Some (Inr DataFrame_empty)"
  proof (cases execute_fresh)
    case True
    with remote have r: "start_execution api query_id = Inr (Some eid)" "eid \<noteq> []"
      "still_running (execution_status api eid) n"
      "execution_status api eid n = Inr (Some ''COMPLETED'')"
      "execution_results api eid = Inr body" by simp_all
    have "poll (execution_status api eid) 0 = poll (execution_status api eid) n"
      using r(3) by (rule poll_still_running)
    also have "\<dots> = Some (Inr ())" using r(4) by (rule poll_completed)
    finally have "poll (execution_status api eid) 0 = Some (Inr ())" .
    with r True show ?thesis
      by (simp add: execute_query_def empty_df_rows_to_frame [OF zero])
  next
    case False
    with remote show ?thesis
      by (simp add: get_query_results_def empty_df_rows_to_frame [OF zero])
  qed
  have a: "get_dataframe api query_id execute_fresh = Some (Inr DataFrame_empty)"
    using df by (simp add: get_dataframe_def)
  have b: "get_data_as_csv_string api query_id execute_fresh = Some (Inr [Header []])"
    unfolding get_data_as_csv_string_def df by (simp add: to_csv_def DataFrame_empty_def)
  have c: "query_to_csv api output_dir timestamp query_id name execute_fresh fs
             = Some (Inl (Exception ''No data returned from Dune query''), fs)"
    unfolding query_to_csv_def df by (simp add: empty_df_def DataFrame_empty_def)
  have d: "get_dataframe api' q fresh
             \<noteq> Some (Inl (Exception ''No data returned from Dune query''))"
    for api' :: "'v dune_api" and q fresh
    using execute_query_not_no_data [of api' q] get_query_results_not_no_data [of api' q]
    by (simp add: get_dataframe_def)
  have e: "get_data_as_csv_string api' q fresh
             \<noteq> Some (Inl (Exception ''No data returned from Dune query''))"
    for api' :: "'v dune_api" and q fresh
    using execute_query_not_no_data [of api' q] get_query_results_not_no_data [of api' q]
    by (auto simp: get_data_as_csv_string_def split: option.splits sum.splits if_splits)
  from a b c d e show ?thesis by blast
qed

theorem zero_rows_raise_only_in_query_to_csv_witness:
  "latest_results empty_api 7 = Inr (Some []) \<and> zero_rows (Some ([] :: int dict list))
   \<and> get_dataframe empty_api 7 False = Some (Inr DataFrame_empty)
   \<and> get_data_as_csv_string empty_api 7 False = Some (Inr [Header []])
   \<and> query_to_csv empty_api ''output'' ''20240101_000000'' 7 None False Map.empty
       = Some (Inl (Exception ''No data returned from Dune query''), Map.empty)"
proof -
  have r: "if False
       then start_execution empty_api 7 = Inr (Some ''01HY'') \<and> ''01HY'' \<noteq> []
            \<and> still_running (execution_status empty_api ''01HY'') 1
            \<and> execution_status empty_api ''01HY'' 1 = Inr (Some ''COMPLETED'')
            \<and> execution_results empty_api ''01HY'' = Inr (Some [])
       else latest_results empty_api 7 = Inr (Some [])"
    by (simp add: empty_api_def)
  have z: "zero_rows (Some ([] :: int dict list))"
    by (simp add: zero_rows_def)
  show ?thesis
    using zero_rows_raise_only_in_query_to_csv
      [where api = empty_api and execute_fresh = False and query_id = 7 and eid = "''01HY''"
         and n = 1 and body = "Some []" and output_dir = "''output''"
         and timestamp = "''20240101_000000''" and name = None and fs = Map.empty, OF r z]
    using z by (simp add: empty_api_def)
qed

lemma export_loop_raise:
  assumes "query_to_csv api output_dir timestamp q
             (Some (''morpho_vault_data_'' @ str_int q @ ''.csv'')) False fs = Some (Inl e, fs')"
  shows "export_loop api output_dir timestamp n i (q # rest) out fs
           = Some (Some e, out @ [''Processing query '' @ string_of_nat i @ ''/''
                                    @ string_of_nat n @ '': '' @ str_int q], fs')"
  using assms by (simp add: Let_def)

lemma export_loop_stops:
  assumes "query_to_csv api output_dir timestamp q
             (Some (''morpho_vault_data_'' @ str_int q @ ''.csv'')) False fs1 = Some (Inl e, fs1')"
    and "\<And>fs. query_to_csv api output_dir timestamp q
             (Some (''morpho_vault_data_'' @ str_int q @ ''.csv'')) False fs = Some (Inl e, fs)"
  shows "export_loop api output_dir timestamp n i (pre @ q # rest) out fs
           = export_loop api output_dir timestamp n i (pre @ [q]) out fs"
proof (induction pre arbitrary: i out fs)
  case Nil
  show ?case
    using assms(2) [of fs] by (simp add: Let_def)
next
  case (Cons p pre)
  show ?case
    by (simp add: Let_def Cons.IH split: option.splits sum.splits prod.splits)
qed

text \<open>
  C3 as stated fails. With a remote whose first query has no rows and whose other
  queries have one row each, \<^verbatim>\<open>main\<close> prints the error of the first query and ends:
  the three remaining query ids are not processed and no file exists afterwards,
  although the second query taken alone is exported.
\<close>

theorem batch_continues_counterexample:
  "get_query_results first_empty_api 5455942 = Inr DataFrame_empty
   \<and> main_dune_to_sheets (Some ''key'') first_empty_api ''20240101_000000'' Map.empty
       = Some (None,
               [''Fetching data and saving to CSV files...'',
                ''Processing query 1/4: 5455942'',
                ''Error: No data returned from Dune query''],
               Map.empty)
   \<and> query_to_csv first_empty_api ''output'' ''20240101_000000'' 5462213
         (Some ''morpho_vault_data_5462213.csv'') False Map.empty
       = Some (Inr \<lparr>rows_saved = 1, columns_saved = 1,
                      filepath = ''output/morpho_vault_data_5462213.csv'',
                      filename = ''morpho_vault_data_5462213.csv''\<rparr>,
               [''output/morpho_vault_data_5462213.csv'' \<mapsto> [Header [''day''], Row [Some 1]]])"
proof -
  have a: "get_query_results first_empty_api 5455942 = Inr DataFrame_empty"
    by (simp add: get_query_results_def first_empty_api_def rows_to_frame_def)
  have s1: "string_of_nat (Suc 0) = ''1''" "string_of_nat (Suc (Suc (Suc (Suc 0)))) = ''4''"
    by (simp_all add: string_of_nat.simps digit_char_def)
  have s2: "str_int 5455942 = ''5455942''"
    by (simp add: str_int_def string_of_nat.simps digit_char_def)
  have b: "main_dune_to_sheets (Some ''key'') first_empty_api ''20240101_000000'' Map.empty
       = Some (None,
               [''Fetching data and saving to CSV files...'',
                ''Processing query 1/4: 5455942'',
                ''Error: No data returned from Dune query''],
               Map.empty)"
    by (simp add: main_dune_to_sheets_def query_ids_def query_to_csv_def a s1 s2
          empty_df_def DataFrame_empty_def)
  have g: "get_query_results first_empty_api 5462213
             = Inr \<lparr>columns = [''day''], rows = [[Some 1]]\<rparr>"
    by (simp add: get_query_results_def first_empty_api_def rows_to_frame_def DataFrame_def
          first_seen_def)
  have c: "query_to_csv first_empty_api ''output'' ''20240101_000000'' 5462213
         (Some ''morpho_vault_data_5462213.csv'') False Map.empty
       = Some (Inr \<lparr>rows_saved = 1, columns_saved = 1,
                      filepath = ''output/morpho_vault_data_5462213.csv'',
                      filename = ''morpho_vault_data_5462213.csv''\<rparr>,
               [''output/morpho_vault_data_5462213.csv'' \<mapsto> [Header [''day''], Row [Some 1]]])"
    by (simp add: query_to_csv_def g empty_df_def save_dataframe_def path_join_def Let_def
          to_csv_def)
  from a b c show ?thesis by simp
qed

lemma export_loop_append:
  "export_loop api output_dir timestamp n i (pre @ post) out fs
     = (case export_loop api output_dir timestamp n i pre out fs of
          None \<Rightarrow> None
        | Some (None, out', fs') \<Rightarrow>
            export_loop api output_dir timestamp n (i + length pre) post out' fs'
        | Some (Some e, out', fs') \<Rightarrow> Some (Some e, out', fs'))"
proof (induction pre arbitrary: i out fs)
  case Nil
  show ?case by simp
next
  case (Cons p pre)
  show ?case
  proof (cases "query_to_csv api output_dir timestamp p
                  (Some (''morpho_vault_data_'' @ str_int p @ ''.csv'')) False fs")
    case None
    then show ?thesis by (simp add: Let_def)
  next
    case (Some r)
    obtain x fs1 where r: "r = (x, fs1)" by (cases r)
    show ?thesis
    proof (cases x)
      case (Inl e)
      with Some r show ?thesis by (simp add: Let_def)
    next
      case (Inr res)
      with Some r show ?thesis
        by (simp add: Let_def Cons.IH split: option.split prod.split)
    qed
  qed
qed

text \<open>
  C3, amended. A query whose result set is empty makes \<^verbatim>\<open>query_to_csv\<close> raise "No data
  returned from Dune query" and write no file, in cached mode and in fresh-execution
  mode. In the batch loop of \<^verbatim>\<open>main\<close> that error ends the loop at that query: the loop
  returns with the error and the file system as the earlier queries left it, and the
  query ids after it are not processed (the loop over the whole list does what the loop
  over the list cut after that query does). For \<^verbatim>\<open>main\<close> itself, with the API key set: when
  the queries before that query in \<^verbatim>\<open>query_ids\<close> were exported, \<^verbatim>\<open>main\<close> prints the line of
  that query and then the error, returns normally (no exception leaves it), and the file
  system is the one the earlier queries left.
\<close>

theorem empty_result_ends_batch:
  fixes api :: "'v dune_api" and fs :: "'v fs"
  assumes res: "get_query_results api q = Inr df"
    and emp: "empty_df df"
    and key: "api_key = Some k" "k \<noteq> []"
    and pos: "query_ids = ids_before @ q # ids_after"
    and before: "export_loop api ''output'' timestamp (length query_ids) 1 ids_before
                   [''Fetching data and saving to CSV files...''] fs = Some (None, out_before, fs_before)"
  shows "query_to_csv api output_dir timestamp q name False fs
           = Some (Inl (Exception ''No data returned from Dune query''), fs)
         \<and> (\<forall>q' df'. execute_query api q' = Some (Inr df') \<longrightarrow> empty_df df'
               \<longrightarrow> query_to_csv api output_dir timestamp q' name True fs
                     = Some (Inl (Exception ''No data returned from Dune query''), fs))
         \<and> export_loop api output_dir timestamp n i (q # rest) out fs
           = Some (Some (Exception ''No data returned from Dune query''),
                   out @ [''Processing query '' @ string_of_nat i @ ''/'' @ string_of_nat n
                            @ '': '' @ str_int q], fs)
         \<and> export_loop api output_dir timestamp n i (pre @ q # rest) out fs
           = export_loop api output_dir timestamp n i (pre @ [q]) out fs
         \<and> main_dune_to_sheets api_key api timestamp fs
           = Some (None,
                   out_before @ [''Processing query '' @ string_of_nat (Suc (length ids_before))
                             @ ''/'' @ string_of_nat (length query_ids) @ '': '' @ str_int q,
                           ''Error: No data returned from Dune query''],
                   fs_before)"
proof -
  have raise: "query_to_csv api od timestamp q nm False fs0
           = Some (Inl (Exception ''No data returned from Dune query''), fs0)"
    for od nm and fs0 :: "'v fs"
    using res emp by (simp add: query_to_csv_def)
  have fresh: "\<forall>q' df'. execute_query api q' = Some (Inr df') \<longrightarrow> empty_df df'
               \<longrightarrow> query_to_csv api output_dir timestamp q' name True fs
                     = Some (Inl (Exception ''No data returned from Dune query''), fs)"
    by (simp add: query_to_csv_def)
  have "export_loop api ''output'' timestamp (length query_ids) 1 (ids_before @ q # ids_after)
            [''Fetching data and saving to CSV files...''] fs
          = export_loop api ''output'' timestamp (length query_ids) (1 + length ids_before)
              (q # ids_after) out_before fs_before"
    unfolding export_loop_append [of api "''output''" timestamp "length query_ids" 1 ids_before]
    by (simp only: before option.case prod.case)
  also have "\<dots> = Some (Some (Exception ''No data returned from Dune query''),
                   out_before @ [''Processing query '' @ string_of_nat (1 + length ids_before)
                             @ ''/'' @ string_of_nat (length query_ids) @ '': '' @ str_int q],
                   fs_before)"
    by (rule export_loop_raise [OF raise])
  finally have loop: "export_loop api ''output'' timestamp (length query_ids) 1
            (ids_before @ q # ids_after) [''Fetching data and saving to CSV files...''] fs
          = Some (Some (Exception ''No data returned from Dune query''),
                   out_before @ [''Processing query '' @ string_of_nat (1 + length ids_before)
                             @ ''/'' @ string_of_nat (length query_ids) @ '': '' @ str_int q],
                   fs_before)" .
  have whole: "export_loop api ''output'' timestamp (length query_ids) 1 query_ids
            [''Fetching data and saving to CSV files...''] fs
          = export_loop api ''output'' timestamp (length query_ids) 1
              (ids_before @ q # ids_after) [''Fetching data and saving to CSV files...''] fs"
    using pos by simp
  have main: "main_dune_to_sheets api_key api timestamp fs
           = Some (None,
                   out_before @ [''Processing query '' @ string_of_nat (Suc (length ids_before))
                             @ ''/'' @ string_of_nat (length query_ids) @ '': '' @ str_int q,
                           ''Error: No data returned from Dune query''],
                   fs_before)"
    unfolding main_dune_to_sheets_def whole loop using key by simp
  show ?thesis
    using raise fresh export_loop_raise [OF raise] export_loop_stops [OF raise raise] main
    by blast
qed

theorem empty_result_ends_batch_witness:
  "get_query_results second_empty_api 5462213 = Inr DataFrame_empty
   \<and> empty_df (DataFrame_empty :: int dataframe)
   \<and> query_ids = [5455942] @ 5462213 # [5462219, 5462222]
   \<and> export_loop second_empty_api ''output'' ''20240101_000000'' (length query_ids) 1 [5455942]
         [''Fetching data and saving to CSV files...''] Map.empty
       = Some (None,
               [''Fetching data and saving to CSV files...'',
                ''Processing query 1/4: 5455942'',
                ''Saved 1 rows to output/morpho_vault_data_5455942.csv''],
               [''output/morpho_vault_data_5455942.csv'' \<mapsto> [Header [''day''], Row [Some 1]]])
   \<and> main_dune_to_sheets (Some ''key'') second_empty_api ''20240101_000000'' Map.empty
       = Some (None,
               [''Fetching data and saving to CSV files...'',
                ''Processing query 1/4: 5455942'',
                ''Saved 1 rows to output/morpho_vault_data_5455942.csv'',
                ''Processing query 2/4: 5462213'',
                ''Error: No data returned from Dune query''],
               [''output/morpho_vault_data_5455942.csv'' \<mapsto> [Header [''day''], Row [Some 1]]])"
proof -
  have a: "get_query_results second_empty_api 5462213 = Inr DataFrame_empty"
    by (simp add: get_query_results_def second_empty_api_def rows_to_frame_def)
  have e: "empty_df (DataFrame_empty :: int dataframe)"
    by (simp add: empty_df_def DataFrame_empty_def)
  have p: "query_ids = [5455942] @ 5462213 # [5462219, 5462222]"
    by (simp add: query_ids_def)
  have n: "length query_ids = 4"
    by (simp add: query_ids_def)
  have s1: "string_of_nat 1 = ''1''" "string_of_nat (Suc 0) = ''1''" "string_of_nat 4 = ''4''"
    "string_of_nat (Suc (Suc 0)) = ''2''"
    by (simp_all add: string_of_nat.simps digit_char_def)
  have s2: "str_int 5455942 = ''5455942''" "str_int 5462213 = ''5462213''"
    by (simp_all add: str_int_def string_of_nat.simps digit_char_def)
  have g: "get_query_results second_empty_api 5455942
             = Inr \<lparr>columns = [''day''], rows = [[Some 1]]\<rparr>"
    by (simp add: get_query_results_def second_empty_api_def rows_to_frame_def DataFrame_def
          first_seen_def)
  have b: "export_loop second_empty_api ''output'' ''20240101_000000'' (length query_ids) 1
         [5455942] [''Fetching data and saving to CSV files...''] Map.empty
       = Some (None,
               [''Fetching data and saving to CSV files...'',
                ''Processing query 1/4: 5455942'',
                ''Saved 1 rows to output/morpho_vault_data_5455942.csv''],
               [''output/morpho_vault_data_5455942.csv'' \<mapsto> [Header [''day''], Row [Some 1]]])"
    by (simp add: n query_to_csv_def g empty_df_def save_dataframe_def path_join_def Let_def
          to_csv_def s1 s2)
  have k: "''key'' \<noteq> []" by simp
  show ?thesis
    using empty_result_ends_batch
      [where api = second_empty_api and q = 5462213 and df = DataFrame_empty
         and api_key = "Some ''key''" and k = "''key''" and ids_before = "[5455942]"
         and ids_after = "[5462219, 5462222]" and timestamp = "''20240101_000000''"
         and fs = Map.empty
         and out_before = "[''Fetching data and saving to CSV files...'',
                      ''Processing query 1/4: 5455942'',
                      ''Saved 1 rows to output/morpho_vault_data_5455942.csv'']"
         and fs_before = "[''output/morpho_vault_data_5455942.csv'' \<mapsto> [Header [''day''], Row [Some 1]]]",
       OF a e refl k p b]
      a e p b
    by (simp add: n s1 s2)
qed

section \<open>Properties of the historical-series fetcher\<close>

lemma get_historical_data_no_data:
  "no_data_reply (chart pid) \<Longrightarrow> fst (get_historical_data chart pid) = Inr None"
  by (auto simp: no_data_reply_def get_historical_data_def Let_def
      split: chart_reply.splits chart_body.splits)

lemma process_vault_no_data:
  assumes "no_data_reply (chart (pool_id v))"
  shows "process_vault chart v out fs = (None, out @ no_data_lines chart v, fs)"
proof -
  have "fst (get_historical_data chart (pool_id v)) = Inr None"
    using assms by (rule get_historical_data_no_data)
  then obtain printed where g: "get_historical_data chart (pool_id v) = (Inr None, printed)"
    by (cases "get_historical_data chart (pool_id v)") auto
  show ?thesis
    by (simp add: process_vault_def g no_data_lines_def)
qed

lemma process_vaults_append:
  "process_vaults chart (pre @ post) out fs
     = (case process_vaults chart pre out fs of
          (Some e, out', fs') \<Rightarrow> (Some e, out', fs')
        | (None, out', fs') \<Rightarrow> process_vaults chart post out' fs')"
proof (induction pre arbitrary: out fs)
  case Nil
  show ?case by simp
next
  case (Cons v pre)
  obtain r out1 fs1 where step: "process_vault chart v out fs = (r, out1, fs1)"
    by (cases "process_vault chart v out fs") auto
  show ?case
  proof (cases r)
    case None
    with step show ?thesis by (simp add: Cons.IH)
  next
    case (Some e)
    with step show ?thesis by simp
  qed
qed

text \<open>
  C6. A vault whose fetch answers with a status other than 200, or with a payload whose
  \<^verbatim>\<open>data\<close> field is absent or empty, writes no file and does not stop the loop: the
  loop goes on with the vaults after it, from the same file system (only the lines
  printed for that vault are added to the output). So wherever such a vault stands in
  the list, the run is the run over the vaults before it followed by the run over the
  vaults after it.
\<close>

theorem no_data_vault_is_skipped:
  fixes chart :: "string \<Rightarrow> 'v chart_reply" and fs :: "'v fs"
  assumes "no_data_reply (chart (pool_id v))"
  shows "fst (get_historical_data chart (pool_id v)) = Inr None
         \<and> process_vaults chart (v # rest) out fs
           = process_vaults chart rest (out @ no_data_lines chart v) fs
         \<and> process_vaults chart (pre @ v # rest) out fs
           = (case process_vaults chart pre out fs of
                (Some e, out', fs') \<Rightarrow> (Some e, out', fs')
              | (None, out', fs') \<Rightarrow>
                  process_vaults chart rest (out' @ no_data_lines chart v) fs')"
proof -
  have skip: "process_vaults chart (v # rest) out0 fs0
           = process_vaults chart rest (out0 @ no_data_lines chart v) fs0"
    for out0 and fs0 :: "'v fs"
    by (simp add: process_vault_no_data [of chart v, OF assms])
  have "process_vaults chart (pre @ v # rest) out fs
           = (case process_vaults chart pre out fs of
                (Some e, out', fs') \<Rightarrow> (Some e, out', fs')
              | (None, out', fs') \<Rightarrow>
                  process_vaults chart rest (out' @ no_data_lines chart v) fs')"
    unfolding process_vaults_append [of chart pre "v # rest"]
    by (simp add: skip split: prod.split option.split del: process_vaults.simps)
  then show ?thesis
    using get_historical_data_no_data [of chart "pool_id v", OF assms] skip by simp
qed

theorem no_data_vault_is_skipped_witness:
  "no_data_reply (sample_chart (pool_id vault_b))
   \<and> main_defi_llama_validation (File_Json [vault_a, vault_b, vault_c]) sample_chart Map.empty
       = (None,
          [''Processing USDC with pool_id: p1'',
           ''Fetching historical data for pool p1...'',
           ''Saved historical data to data/validation/morpho_Ethereum_USDC.csv'',
           ''Processing WETH with pool_id: p2'',
           ''Fetching historical data for pool p2...'',
           ''Failed to fetch historical data for pool p2: 404'',
           ''No historical data available for WETH'',
           ''Processing DAI with pool_id: p3'',
           ''Fetching historical data for pool p3...'',
           ''Saved historical data to data/validation/morpho_Ethereum_DAI.csv''],
          [''data/validation/morpho_Ethereum_USDC.csv'' \<mapsto> [Header [''tvlUsd''], Row [Some 5]],
           ''data/validation/morpho_Ethereum_DAI.csv'' \<mapsto> [Header [''tvlUsd''], Row [Some 5]]])"
proof -
  have n: "no_data_reply (sample_chart (pool_id vault_b))"
    by (simp add: no_data_reply_def sample_chart_def vault_b_def)
  have s: "str_int 404 = ''404''"
    by (simp add: str_int_def string_of_nat.simps digit_char_def)
  have a: "get_historical_data sample_chart ''p1''
             = (Inr (Some [[(''tvlUsd'', 5)]]), [''Fetching historical data for pool p1...''])"
    by (simp add: get_historical_data_def sample_chart_def)
  have c: "get_historical_data sample_chart ''p3''
             = (Inr (Some [[(''tvlUsd'', 5)]]), [''Fetching historical data for pool p3...''])"
    by (simp add: get_historical_data_def sample_chart_def)
  have b: "get_historical_data sample_chart ''p2''
             = (Inr None, [''Fetching historical data for pool p2...'',
                           ''Failed to fetch historical data for pool p2: 404''])"
    by (simp add: get_historical_data_def sample_chart_def s)
  have d: "DataFrame [[(''tvlUsd'', 5::int)]] = \<lparr>columns = [''tvlUsd''], rows = [[Some 5]]\<rparr>"
    by (simp add: DataFrame_def first_seen_def)
  show ?thesis
    using no_data_vault_is_skipped
      [where chart = sample_chart and v = vault_b and pre = "[vault_a]" and rest = "[vault_c]"
         and out = "[]" and fs = Map.empty, OF n]
    using n
    by (simp add: main_defi_llama_validation_def process_vault_def vault_a_def vault_b_def
          vault_c_def a b c d no_data_lines_def OUTPUT_DIR_def to_csv_def Let_def)
qed

section \<open>Properties of the cross-source validator\<close>

subsection \<open>Aggregation\<close>

lemma those_length: "those xs = Some ys \<Longrightarrow> length ys = length xs"
  by (induction xs arbitrary: ys) (auto split: option.splits)

lemma groupby_mean_dates:
  "map fst (groupby_mean mean rs) = sort (remdups [d. (Some d, v) \<leftarrow> rs])"
  by (simp add: groupby_mean_def comp_def)

lemma dated_rows_set: "set [d. (Some d, v) \<leftarrow> rs] = {d. \<exists>v. (Some d, v) \<in> set rs}"
  by (auto split: option.splits)

lemma groupby_mean_distinct: "distinct (map fst (groupby_mean mean rs))"
  by (simp add: groupby_mean_dates)

lemma groupby_mean_sorted: "sorted (map fst (groupby_mean mean rs))"
  by (simp add: groupby_mean_dates)

lemma groupby_mean_set:
  "fst ` set (groupby_mean mean rs) = {d. \<exists>v. (Some d, v) \<in> set rs}"
proof -
  have "fst ` set (groupby_mean mean rs) = set (map fst (groupby_mean mean rs))" by simp
  also have "\<dots> = set [d. (Some d, v) \<leftarrow> rs]"
    unfolding groupby_mean_dates by simp
  finally show ?thesis by (simp only: dated_rows_set)
qed

lemma groupby_mean_value:
  "(d, v) \<in> set (groupby_mean mean rs) \<Longrightarrow> v = mean_skipna mean [v'. (Some d', v') \<leftarrow> rs, d' = d]"
  by (auto simp: groupby_mean_def)

lemma present_values:
  "[x. Some x \<leftarrow> [v'. (Some d', v') \<leftarrow> rs, d' = d]] = [x. (Some d', Some x) \<leftarrow> rs, d' = d]"
  by (induction rs) (auto split: option.splits)

lemma groupby_mean_present:
  assumes "(d, v) \<in> set (groupby_mean mean rs)"
  shows "v = (if [x. (Some d', Some x) \<leftarrow> rs, d' = d] = [] then None
              else Some (mean [x. (Some d', Some x) \<leftarrow> rs, d' = d]))"
proof -
  have "v = mean_skipna mean [v'. (Some d', v') \<leftarrow> rs, d' = d]"
    using assms by (rule groupby_mean_value)
  then show ?thesis
    unfolding mean_skipna_def Let_def present_values .
qed

lemma date_value_rows_length:
  "fst (date_value_rows df p) = Some rs \<Longrightarrow> length rs = length (rows df)"
  by (auto simp: date_value_rows_def Let_def column_def split: option.splits
      dest!: those_length)

lemma extract_tvl_data_Some:
  assumes "fst (extract_tvl_data mean disk csv_path source_name) = Some s"
  obtains df rs where "disk csv_path = Some (Table df)"
    and "fst (date_value_rows df csv_path) = Some rs" and "s = groupby_mean mean rs"
  using assms
  by (auto simp: extract_tvl_data_def split: option.splits csv_file.splits prod.splits)

lemma extract_tvl_data_distinct:
  "fst (extract_tvl_data mean disk csv_path source_name) = Some s \<Longrightarrow> distinct (map fst s)"
  by (erule extract_tvl_data_Some) (simp add: groupby_mean_distinct)

text \<open>
  C2. For a file that \<^verbatim>\<open>extract_tvl_data\<close> reads (it finds both columns, the dates parse
  and the values are numeric), with \<open>result_df\<close> the (date, value) rows before the
  aggregation, one per row of the file: the series returned is the aggregation of these
  rows; its dates are pairwise distinct and ascending; they are exactly the calendar
  dates that occur in the rows, so all rows of one date are collapsed into one row; and
  the value of that row is pandas' \<^verbatim>\<open>mean\<close> (the parameter \<open>mean\<close>) of the values that the
  rows of that date carry, in row order, the missing ones left out; it is missing when
  no row of that date carries a value.
\<close>

theorem extract_one_mean_row_per_date:
  assumes "disk csv_path = Some (Table df)"
    and "fst (date_value_rows df csv_path) = Some result_df"
  shows "fst (extract_tvl_data mean disk csv_path source_name)
           = Some (groupby_mean mean result_df)
         \<and> length result_df = length (rows df)
         \<and> distinct (map fst (groupby_mean mean result_df))
         \<and> sorted (map fst (groupby_mean mean result_df))
         \<and> fst ` set (groupby_mean mean result_df) = {d. \<exists>v. (Some d, v) \<in> set result_df}
         \<and> (\<forall>(d, v) \<in> set (groupby_mean mean result_df).
               v = (if [x. (Some d', Some x) \<leftarrow> result_df, d' = d] = [] then None
                    else Some (mean [x. (Some d', Some x) \<leftarrow> result_df, d' = d])))"
proof -
  have a: "fst (extract_tvl_data mean disk csv_path source_name)
             = Some (groupby_mean mean result_df)"
    using assms by (cases "date_value_rows df csv_path") (simp add: extract_tvl_data_def)
  have b: "length result_df = length (rows df)"
    using assms(2) by (rule date_value_rows_length)
  have c: "\<forall>(d, v) \<in> set (groupby_mean mean result_df).
               v = (if [x. (Some d', Some x) \<leftarrow> result_df, d' = d] = [] then None
                    else Some (mean [x. (Some d', Some x) \<leftarrow> result_df, d' = d]))"
    using groupby_mean_present [of _ _ mean result_df] by blast
  show ?thesis
    using a b c groupby_mean_distinct [of mean result_df] groupby_mean_sorted [of mean result_df]
      groupby_mean_set [of mean result_df]
    by blast
qed

theorem extract_one_mean_row_per_date_witness:
  "sample_disk ''data/defillama/a.csv'' = Some (Table sample_defillama)
   \<and> fst (date_value_rows sample_defillama ''data/defillama/a.csv'')
       = Some [(Some 0, Some 100), (Some 0, Some 110), (Some 1, Some 120)]
   \<and> fst (extract_tvl_data exact_mean sample_disk ''data/defillama/a.csv'' ''defillama'')
       = Some [(0, Some 105), (1, Some 120)]"
proof -
  have d: "sample_disk ''data/defillama/a.csv'' = Some (Table sample_defillama)"
    by (simp add: sample_disk_def)
  have r: "fst (date_value_rows sample_defillama ''data/defillama/a.csv'')
       = Some [(Some 0, Some 100), (Some 0, Some 110), (Some 1, Some 120)]"
    by (simp add: date_value_rows_def sample_defillama_def lower_def lower_char_def
          date_candidates_def tvl_candidates_def column_def cell_at_def dt_date_def)
  have g: "groupby_mean exact_mean [(Some 0, Some 100), (Some 0, Some 110), (Some 1, Some 120)]
       = [(0, Some 105), (1, Some 120)]"
    by (simp add: groupby_mean_def mean_skipna_def exact_mean_def)
  show ?thesis
    using extract_one_mean_row_per_date
      [where disk = sample_disk and csv_path = "''data/defillama/a.csv''"
         and df = sample_defillama and source_name = "''defillama''" and mean = exact_mean
         and result_df = "[(Some 0, Some 100), (Some 0, Some 110), (Some 1, Some 120)]",
       OF d r]
      d r g
    by simp
qed

subsection \<open>Merge\<close>

lemma rows_of_key:
  "distinct (map fst l)
     \<Longrightarrow> [v. (d', v) \<leftarrow> l, d' = d] = (case map_of l d of None \<Rightarrow> [] | Some v \<Rightarrow> [v])"
proof (induction l)
  case Nil
  show ?case by simp
next
  case (Cons x l)
  obtain k w where x: "x = (k, w)" by (cases x)
  show ?case
  proof (cases "k = d")
    case True
    with Cons.prems x have "d \<notin> fst ` set l" by auto
    then have "map_of l d = None" by (simp add: map_of_eq_None_iff)
    with Cons x True show ?thesis by simp
  next
    case False
    with Cons x show ?thesis by simp
  qed
qed

lemma merge_outer_distinct:
  assumes "distinct (map fst l)" "distinct (map fst r)"
  shows "merge_outer l r
           = map (\<lambda>d. (d, value_on l d, value_on r d)) (sort (remdups (map fst l @ map fst r)))"
proof -
  have "(let ls = [v. (d', v) \<leftarrow> l, d' = d];
            rs = [v. (d', v) \<leftarrow> r, d' = d]
        in if rs = [] then map (\<lambda>a. (d, a, None)) ls
           else if ls = [] then map (\<lambda>b. (d, None, b)) rs
           else [(d, a, b). a \<leftarrow> ls, b \<leftarrow> rs]) = [(d, value_on l d, value_on r d)]"
    if "d \<in> set (sort (remdups (map fst l @ map fst r)))" for d
  proof -
    from that have "d \<in> fst ` set l \<or> d \<in> fst ` set r" by auto
    then have "map_of l d \<noteq> None \<or> map_of r d \<noteq> None"
      by (simp add: map_of_eq_None_iff)
    then show ?thesis
      unfolding rows_of_key [OF assms(1)] rows_of_key [OF assms(2)]
      by (auto simp: value_on_def split: option.splits)
  qed
  then have "merge_outer l r
      = concat (map (\<lambda>d. [(d, value_on l d, value_on r d)])
                 (sort (remdups (map fst l @ map fst r))))"
    unfolding merge_outer_def by (intro arg_cong [where f = concat] map_cong refl)
  then show ?thesis by (simp add: concat_map_singleton)
qed

lemma sort_values_sorted: "sorted (map fst m) \<Longrightarrow> sort_values m = m"
  by (simp add: sort_values_def sort_key_id_if_sorted)

lemma merged_distinct:
  assumes "distinct (map fst l)" "distinct (map fst r)"
  shows "sort_values (merge_outer l r)
           = map (\<lambda>d. (d, value_on l d, value_on r d)) (sort (remdups (map fst l @ map fst r)))"
proof -
  have "map fst (map (\<lambda>d. (d, value_on l d, value_on r d)) ks) = ks" for ks
    by (induction ks) auto
  then have "sorted (map fst (map (\<lambda>d. (d, value_on l d, value_on r d))
                               (sort (remdups (map fst l @ map fst r)))))"
    by simp
  then show ?thesis
    unfolding merge_outer_distinct [OF assms] by (rule sort_values_sorted)
qed

lemma merged_dates:
  assumes "distinct (map fst l)" "distinct (map fst r)"
  shows "map fst (sort_values (merge_outer l r)) = sort (remdups (map fst l @ map fst r))"
proof -
  have "map fst (map (\<lambda>d. (d, value_on l d, value_on r d)) ks) = ks" for ks
    by (induction ks) auto
  then show ?thesis by (simp only: merged_distinct [OF assms])
qed

lemma value_on_lacking:
  assumes "d \<notin> fst ` set s"
  shows "value_on s d = None"
proof -
  from assms have "map_of s d = None" by (simp add: map_of_eq_None_iff)
  then show ?thesis by (simp add: value_on_def)
qed

text \<open>
  C1 as stated fails. The second sample file has a row on day 2 without a value, so its
  series has day 2 with a missing value; in the merged table the row of day 2 has a
  missing value in that source's column although the source has the date (and here no
  source is populated in that row).
\<close>

theorem null_exactly_on_lacking_dates_counterexample:
  "fst (extract_tvl_data exact_mean sample_disk ''data/defillama/a.csv'' ''defillama'')
     = Some [(0, Some 105), (1, Some 120)]
   \<and> fst (extract_tvl_data exact_mean sample_disk ''data/dune/a.csv'' ''dune'')
     = Some [(1, Some 118), (2, None)]
   \<and> fst (create_validation_file pearson [(0, Some 105), (1, Some 120)]
            [(1, Some 118), (2, None)] ''a.csv'' sample_disk)
     = Some [(0, Some 105, None), (1, Some 120, Some 118), (2, None, None)]
   \<and> 2 \<in> fst ` set [(1 :: int, Some (118 :: real)), (2, None)]"
proof -
  have r1: "date_value_rows sample_defillama ''data/defillama/a.csv''
       = (Some [(Some 0, Some 100), (Some 0, Some 110), (Some 1, Some 120)],
          [Reading ''data/defillama/a.csv'' 3 3])"
    by (simp add: date_value_rows_def sample_defillama_def lower_def lower_char_def
          date_candidates_def tvl_candidates_def column_def cell_at_def dt_date_def)
  have r2: "date_value_rows sample_dune ''data/dune/a.csv''
       = (Some [(Some 1, Some 118), (Some 2, None)], [Reading ''data/dune/a.csv'' 2 2])"
    by (simp add: date_value_rows_def sample_dune_def lower_def lower_char_def
          date_candidates_def tvl_candidates_def column_def cell_at_def dt_date_def)
  have g1: "groupby_mean exact_mean [(Some 0, Some 100), (Some 0, Some 110), (Some 1, Some 120)]
       = [(0, Some 105), (1, Some 120)]"
    by (simp add: groupby_mean_def mean_skipna_def exact_mean_def)
  have g2: "groupby_mean exact_mean [(Some 1, Some 118), (Some 2, None)] = [(1, Some 118), (2, None)]"
    by (simp add: groupby_mean_def mean_skipna_def exact_mean_def)
  have a: "fst (extract_tvl_data exact_mean sample_disk ''data/defillama/a.csv'' ''defillama'')
     = Some [(0, Some 105), (1, Some 120)]"
    by (simp add: extract_tvl_data_def sample_disk_def r1 g1)
  have b: "fst (extract_tvl_data exact_mean sample_disk ''data/dune/a.csv'' ''dune'')
     = Some [(1, Some 118), (2, None)]"
    by (simp add: extract_tvl_data_def sample_disk_def r2 g2)
  have m: "sort_values (merge_outer [(0, Some 105), (1, Some 120)] [(1, Some 118), (2, None)])
       = [(0, Some 105, None), (1, Some 120, Some 118), (2, None, None)]"
    by (simp add: sort_values_def merge_outer_def)
  have c: "fst (create_validation_file pearson [(0, Some 105), (1, Some 120)]
            [(1, Some 118), (2, None)] ''a.csv'' sample_disk)
     = Some [(0, Some 105, None), (1, Some 120, Some 118), (2, None, None)]"
    by (simp add: create_validation_file_def Let_def m)
  from a b c show ?thesis by simp
qed

text \<open>
  C1, amended. For two series produced by extraction, the merged table that
  \<^verbatim>\<open>create_validation_file\<close> returns and writes has exactly one row for every date present
  in either series, ascending by date: its dates are pairwise distinct, sorted, and are
  the dates of the two series together, so with disjoint date sets the number of rows is
  the sum of the two series' numbers of rows. In each row a source's column holds the
  value that source's series has on the date and is missing on every date the source
  lacks. (It is also missing on a date the source has when the series' value there is
  missing, which is the case when none of the file's rows of that date has a value.)
\<close>

theorem merged_table_one_row_per_date:
  assumes "fst (extract_tvl_data mean disk_a path_a name_a) = Some l"
    and "fst (extract_tvl_data mean disk_b path_b name_b) = Some r"
  shows "fst (create_validation_file corr l r fname disk) = Some (sort_values (merge_outer l r))
         \<and> snd (snd (create_validation_file corr l r fname disk))
               (validation_dir @ ''/'' @ ''validation_'' @ fname)
             = Some (Table (merged_frame (sort_values (merge_outer l r))))
         \<and> sort_values (merge_outer l r)
             = map (\<lambda>d. (d, value_on l d, value_on r d)) (sort (remdups (map fst l @ map fst r)))
         \<and> distinct (map fst (sort_values (merge_outer l r)))
         \<and> sorted (map fst (sort_values (merge_outer l r)))
         \<and> set (map fst (sort_values (merge_outer l r))) = fst ` set l \<union> fst ` set r
         \<and> (fst ` set l \<inter> fst ` set r = {}
              \<longrightarrow> length (sort_values (merge_outer l r)) = length l + length r)
         \<and> (\<forall>(d, a, b) \<in> set (sort_values (merge_outer l r)).
               a = value_on l d \<and> b = value_on r d
               \<and> (d \<notin> fst ` set l \<longrightarrow> a = None) \<and> (d \<notin> fst ` set r \<longrightarrow> b = None))"
proof -
  have dl: "distinct (map fst l)" using assms(1) by (rule extract_tvl_data_distinct)
  have dr: "distinct (map fst r)" using assms(2) by (rule extract_tvl_data_distinct)
  note m = merged_distinct [OF dl dr]
  note k = merged_dates [OF dl dr]
  have a: "fst (create_validation_file corr l r fname disk) = Some (sort_values (merge_outer l r))"
    by (simp add: create_validation_file_def Let_def)
  have b: "snd (snd (create_validation_file corr l r fname disk))
               (validation_dir @ ''/'' @ ''validation_'' @ fname)
             = Some (Table (merged_frame (sort_values (merge_outer l r))))"
    by (simp add: create_validation_file_def Let_def)
  have c: "distinct (map fst (sort_values (merge_outer l r)))"
    unfolding k by simp
  have d: "sorted (map fst (sort_values (merge_outer l r)))"
    unfolding k by simp
  have e: "set (map fst (sort_values (merge_outer l r))) = fst ` set l \<union> fst ` set r"
    unfolding k by simp
  have f: "length (sort_values (merge_outer l r)) = length l + length r"
    if "fst ` set l \<inter> fst ` set r = {}"
  proof -
    from that dl dr have "distinct (map fst l @ map fst r)" by simp
    then have "remdups (map fst l @ map fst r) = map fst l @ map fst r"
      by (rule distinct_remdups_id)
    then have "length (sort (remdups (map fst l @ map fst r))) = length l + length r"
      by (simp only: length_sort length_append length_map)
    then show ?thesis
      using arg_cong [OF k, of length] by simp
  qed
  have g: "\<forall>(d, a, b) \<in> set (sort_values (merge_outer l r)).
               a = value_on l d \<and> b = value_on r d
               \<and> (d \<notin> fst ` set l \<longrightarrow> a = None) \<and> (d \<notin> fst ` set r \<longrightarrow> b = None)"
    unfolding m by (auto simp: value_on_lacking)
  from a b m c d e f g show ?thesis by blast
qed

theorem merged_table_one_row_per_date_witness:
  "fst (extract_tvl_data exact_mean sample_disk ''data/defillama/a.csv'' ''defillama'')
     = Some [(0, Some 105), (1, Some 120)]
   \<and> fst (extract_tvl_data exact_mean sample_disk ''data/dune/a.csv'' ''dune'')
     = Some [(1, Some 118), (2, None)]
   \<and> fst (create_validation_file pearson [(0, Some 105), (1, Some 120)]
            [(1, Some 118), (2, None)] ''a.csv'' sample_disk)
     = Some [(0, Some 105, None), (1, Some 120, Some 118), (2, None, None)]"
proof -
  have r1: "date_value_rows sample_defillama ''data/defillama/a.csv''
       = (Some [(Some 0, Some 100), (Some 0, Some 110), (Some 1, Some 120)],
          [Reading ''data/defillama/a.csv'' 3 3])"
    by (simp add: date_value_rows_def sample_defillama_def lower_def lower_char_def
          date_candidates_def tvl_candidates_def column_def cell_at_def dt_date_def)
  have r2: "date_value_rows sample_dune ''data/dune/a.csv''
       = (Some [(Some 1, Some 118), (Some 2, None)], [Reading ''data/dune/a.csv'' 2 2])"
    by (simp add: date_value_rows_def sample_dune_def lower_def lower_char_def
          date_candidates_def tvl_candidates_def column_def cell_at_def dt_date_def)
  have g1: "groupby_mean exact_mean [(Some 0, Some 100), (Some 0, Some 110), (Some 1, Some 120)]
       = [(0, Some 105), (1, Some 120)]"
    by (simp add: groupby_mean_def mean_skipna_def exact_mean_def)
  have g2: "groupby_mean exact_mean [(Some 1, Some 118), (Some 2, None)] = [(1, Some 118), (2, None)]"
    by (simp add: groupby_mean_def mean_skipna_def exact_mean_def)
  have a: "fst (extract_tvl_data exact_mean sample_disk ''data/defillama/a.csv'' ''defillama'')
     = Some [(0, Some 105), (1, Some 120)]"
    by (simp add: extract_tvl_data_def sample_disk_def r1 g1)
  have b: "fst (extract_tvl_data exact_mean sample_disk ''data/dune/a.csv'' ''dune'')
     = Some [(1, Some 118), (2, None)]"
    by (simp add: extract_tvl_data_def sample_disk_def r2 g2)
  have v: "value_on [(0, Some 105), (1, Some 120)] 0 = Some 105"
    "value_on [(0, Some 105), (1, Some 120)] 1 = Some 120"
    "value_on [(0, Some 105), (1, Some 120)] 2 = None"
    "value_on [(1, Some 118), (2, None)] 0 = None"
    "value_on [(1, Some 118), (2, None)] 1 = Some 118"
    "value_on [(1, Some 118), (2, None)] 2 = None"
    by (simp_all add: value_on_def)
  show ?thesis
    using merged_table_one_row_per_date
      [where disk_a = sample_disk and path_a = "''data/defillama/a.csv''"
         and name_a = "''defillama''" and l = "[(0, Some 105), (1, Some 120)]"
         and disk_b = sample_disk and path_b = "''data/dune/a.csv''" and name_b = "''dune''"
         and r = "[(1, Some 118), (2, None)]" and corr = pearson and mean = exact_mean
         and fname = "''a.csv''"
         and disk = sample_disk, OF a b]
      a b v
    by simp
qed

subsection \<open>Report\<close>

lemma both_count_dropna:
  "length [(a, b). (d, Some a, Some b) \<leftarrow> m] = length (dropna m)"
  by (simp add: dropna_def)

lemma create_validation_file_correlation:
  "filter is_correlation (fst (snd (create_validation_file corr l r fname disk)))
     = (if 2 \<le> length (dropna (sort_values (merge_outer l r)))
        then [Correlation (corr (map fst (dropna (sort_values (merge_outer l r))))
                                (map snd (dropna (sort_values (merge_outer l r)))))]
        else [])"
proof -
  have two: "(1 < n) = (2 \<le> n)" for n :: nat by arith
  show ?thesis
    by (simp add: create_validation_file_def Let_def both_count_dropna two)
qed

lemma date_value_rows_no_correlation:
  "filter is_correlation (snd (date_value_rows df csv_path)) = []"
  by (simp add: date_value_rows_def Let_def split: option.splits)

lemma extract_tvl_data_no_correlation:
  "filter is_correlation (snd (extract_tvl_data mean disk csv_path source_name)) = []"
proof (cases "disk csv_path")
  case None
  then show ?thesis by (simp add: extract_tvl_data_def)
next
  case (Some f)
  show ?thesis
  proof (cases f)
    case (Unreadable m)
    with Some show ?thesis by (simp add: extract_tvl_data_def)
  next
    case (Table df)
    obtain res ev where d: "date_value_rows df csv_path = (res, ev)"
      by (cases "date_value_rows df csv_path")
    with date_value_rows_no_correlation [of df csv_path]
    have "filter is_correlation ev = []" by simp
    with Some Table d show ?thesis
      by (cases res) (simp_all add: extract_tvl_data_def)
  qed
qed

text \<open>
  C8. \<^verbatim>\<open>create_validation_file\<close> prints a correlation coefficient exactly when the merged
  table has at least 2 rows in which both sources' values are present, and the
  coefficient is \<^verbatim>\<open>corr\<close> of the two value columns restricted to these rows; with fewer
  than 2 such rows it prints none. These rows are the rows of the merged table with both
  values present, in the table's order. The loop body of \<^verbatim>\<open>main\<close> computes the same
  coefficient from the returned table under the same condition and prints it once more;
  it prints no other correlation.
\<close>

theorem correlation_only_with_two_common_rows:
  assumes "fst (extract_tvl_data mean disk (defillama_path p) ''defillama'') = Some l"
    and "fst (extract_tvl_data mean disk (dune_path p) ''dune'') = Some r"
  shows "filter is_correlation (fst (snd (create_validation_file corr l r fname disk')))
           = (if 2 \<le> length (dropna (sort_values (merge_outer l r)))
              then [Correlation (corr (map fst (dropna (sort_values (merge_outer l r))))
                                      (map snd (dropna (sort_values (merge_outer l r)))))]
              else [])
         \<and> dropna (sort_values (merge_outer l r))
           = map (\<lambda>(d, a, b). (the a, the b))
               (filter (\<lambda>(d, a, b). a \<noteq> None \<and> b \<noteq> None) (sort_values (merge_outer l r)))
         \<and> filter is_correlation (fst (process_pair mean corr p out disk))
           = filter is_correlation out
             @ (if 2 \<le> length (dropna (sort_values (merge_outer l r)))
                then replicate 2
                       (Correlation (corr (map fst (dropna (sort_values (merge_outer l r))))
                                          (map snd (dropna (sort_values (merge_outer l r))))))
                else [])"
proof -
  have a: "filter is_correlation (fst (snd (create_validation_file corr l r nm dk)))
           = (if 2 \<le> length (dropna (sort_values (merge_outer l r)))
              then [Correlation (corr (map fst (dropna (sort_values (merge_outer l r))))
                                      (map snd (dropna (sort_values (merge_outer l r)))))]
              else [])" for nm dk
    by (rule create_validation_file_correlation)
  have b: "dropna m = map (\<lambda>(d, a, b). (the a, the b))
                        (filter (\<lambda>(d, a, b). a \<noteq> None \<and> b \<noteq> None) m)" for m
    by (induction m) (auto simp: dropna_def split: option.splits)
  obtain ev1 where e1: "extract_tvl_data mean disk (defillama_path p) ''defillama'' = (Some l, ev1)"
    using assms(1) by (cases "extract_tvl_data mean disk (defillama_path p) ''defillama''") auto
  obtain ev2 where e2: "extract_tvl_data mean disk (dune_path p) ''dune'' = (Some r, ev2)"
    using assms(2) by (cases "extract_tvl_data mean disk (dune_path p) ''dune''") auto
  have n1: "filter is_correlation ev1 = []"
    using extract_tvl_data_no_correlation [of mean disk "defillama_path p" "''defillama''"] e1 by simp
  have n2: "filter is_correlation ev2 = []"
    using extract_tvl_data_no_correlation [of mean disk "dune_path p" "''dune''"] e2 by simp
  obtain ev3 dk3 where c3: "create_validation_file corr l r (pair_filename p) disk
      = (Some (sort_values (merge_outer l r)), ev3, dk3)"
    by (simp add: create_validation_file_def Let_def)
  have n3: "filter is_correlation ev3
           = (if 2 \<le> length (dropna (sort_values (merge_outer l r)))
              then [Correlation (corr (map fst (dropna (sort_values (merge_outer l r))))
                                      (map snd (dropna (sort_values (merge_outer l r)))))]
              else [])"
    using a [of "pair_filename p" disk] c3 by simp
  have two: "(1 < n) = (2 \<le> n)" for n :: nat by arith
  have c: "filter is_correlation (fst (process_pair mean corr p out disk))
           = filter is_correlation out
             @ (if 2 \<le> length (dropna (sort_values (merge_outer l r)))
                then replicate 2
                       (Correlation (corr (map fst (dropna (sort_values (merge_outer l r))))
                                          (map snd (dropna (sort_values (merge_outer l r))))))
                else [])"
    by (simp add: process_pair_def Let_def e1 e2 c3 n1 n2 n3 two numeral_2_eq_2)
  from a [of fname disk'] b [of "sort_values (merge_outer l r)"] c show ?thesis by blast
qed

text \<open>A pair of files whose series are the two sample series that share two dates.\<close>

theorem correlation_only_with_two_common_rows_witness:
  "fst (extract_tvl_data exact_mean
          [''data/defillama/b.csv'' \<mapsto> Table \<lparr>columns = [''date'', ''tvl''],
               rows = [[Some (Time 0), Some (Num 1)], [Some (Time 86400), Some (Num 2)],
                       [Some (Time 172800), Some (Num 7)]]\<rparr>,
           ''data/dune/b.csv'' \<mapsto> Table \<lparr>columns = [''date'', ''tvl''],
               rows = [[Some (Time 0), Some (Num 2)], [Some (Time 86400), Some (Num 4)],
                       [Some (Time 259200), Some (Num 9)]]\<rparr>]
          ''data/defillama/b.csv'' ''defillama'') = Some series_a
   \<and> fst (extract_tvl_data exact_mean
          [''data/defillama/b.csv'' \<mapsto> Table \<lparr>columns = [''date'', ''tvl''],
               rows = [[Some (Time 0), Some (Num 1)], [Some (Time 86400), Some (Num 2)],
                       [Some (Time 172800), Some (Num 7)]]\<rparr>,
           ''data/dune/b.csv'' \<mapsto> Table \<lparr>columns = [''date'', ''tvl''],
               rows = [[Some (Time 0), Some (Num 2)], [Some (Time 86400), Some (Num 4)],
                       [Some (Time 259200), Some (Num 9)]]\<rparr>]
          ''data/dune/b.csv'' ''dune'') = Some series_b
   \<and> filter is_correlation
         (fst (snd (create_validation_file pearson series_a series_b ''b.csv'' Map.empty)))
       = [Correlation (Some 1)]"
proof -
  let ?disk = "[''data/defillama/b.csv'' \<mapsto> Table \<lparr>columns = [''date'', ''tvl''],
               rows = [[Some (Time 0), Some (Num 1)], [Some (Time 86400), Some (Num 2)],
                       [Some (Time 172800), Some (Num 7)]]\<rparr>,
           ''data/dune/b.csv'' \<mapsto> Table \<lparr>columns = [''date'', ''tvl''],
               rows = [[Some (Time 0), Some (Num 2)], [Some (Time 86400), Some (Num 4)],
                       [Some (Time 259200), Some (Num 9)]]\<rparr>]"
  have a: "fst (extract_tvl_data exact_mean ?disk ''data/defillama/b.csv'' ''defillama'') = Some series_a"
    by (simp add: extract_tvl_data_def date_value_rows_def lower_def lower_char_def
          date_candidates_def tvl_candidates_def column_def cell_at_def dt_date_def
          groupby_mean_def mean_skipna_def exact_mean_def series_a_def)
  have b: "fst (extract_tvl_data exact_mean ?disk ''data/dune/b.csv'' ''dune'') = Some series_b"
    by (simp add: extract_tvl_data_def date_value_rows_def lower_def lower_char_def
          date_candidates_def tvl_candidates_def column_def cell_at_def dt_date_def
          groupby_mean_def mean_skipna_def exact_mean_def series_b_def)
  have m: "sort_values (merge_outer series_a series_b)
       = [(0, Some 1, Some 2), (1, Some 2, Some 4), (2, Some 7, None), (3, None, Some 9)]"
    by (simp add: sort_values_def merge_outer_def series_a_def series_b_def)
  have d: "dropna [(0, Some 1, Some 2), (1, Some 2, Some 4), (2, Some 7, None), (3, None, Some 9)]
       = [(1, 2), (2, 4)]"
    by (simp add: dropna_def)
  have c: "pearson [1, 2] [2, 4] = Some 1"
    by (simp add: pearson_def Let_def power2_eq_square)
  show ?thesis
    using correlation_only_with_two_common_rows
      [where disk = ?disk
         and p = "\<lparr>defillama_path = ''data/defillama/b.csv'', dune_path = ''data/dune/b.csv'',
                    pair_filename = ''b.csv''\<rparr>"
         and l = series_a and r = series_b and corr = pearson and mean = exact_mean
         and fname = "''b.csv''"
         and disk' = Map.empty and out = "[]"]
      a b
    by (simp add: m d c)
qed

subsection \<open>The static input file\<close>

lemma process_pair_prefix:
  "process_pair mean corr p (pre @ out) disk
     = (case process_pair mean corr p out disk of (out', disk') \<Rightarrow> (pre @ out', disk'))"
  by (simp add: process_pair_def Let_def split: prod.splits option.splits)

lemma process_pairs_prefix:
  "process_pairs mean corr ps (pre @ out) disk
     = (case process_pairs mean corr ps out disk of (out', disk') \<Rightarrow> (pre @ out', disk'))"
proof (induction ps arbitrary: out disk)
  case Nil
  show ?case by simp
next
  case (Cons p ps)
  obtain o1 d1 where s: "process_pair mean corr p out disk = (o1, d1)"
    by (cases "process_pair mean corr p out disk")
  have "process_pair mean corr p (pre @ out) disk = (pre @ o1, d1)"
    by (simp add: process_pair_prefix s)
  with s show ?case by (simp add: Cons.IH)
qed

lemma main_validation_report:
  assumes "load_morpho_vaults static = ([], [e])"
  shows "main_validation mean corr static listing dune_exists disk
           = (case main_validation mean corr (File_Json []) listing dune_exists disk of
                (out, disk') \<Rightarrow> (Starting # e # tl out, disk'))"
proof -
  obtain ps ev1 where f: "find_matching_files listing dune_exists disk = (ps, ev1)"
    by (cases "find_matching_files listing dune_exists disk")
  obtain evs dk where p: "process_pairs mean corr ps [] disk = (evs, dk)"
    by (cases "process_pairs mean corr ps [] disk")
  have l: "load_morpho_vaults (File_Json []) = ([], [])"
    by (simp add: load_morpho_vaults_def)
  have x: "process_pairs mean corr ps (Starting # e # Loaded_Vaults 0 # ev1 @ [Processing_Pairs (length ps)]) disk
             = ((Starting # e # Loaded_Vaults 0 # ev1 @ [Processing_Pairs (length ps)]) @ evs, dk)"
    using process_pairs_prefix
      [of mean corr ps "Starting # e # Loaded_Vaults 0 # ev1 @ [Processing_Pairs (length ps)]" "[]" disk]
    by (simp add: p)
  have y: "process_pairs mean corr ps (Starting # Loaded_Vaults 0 # ev1 @ [Processing_Pairs (length ps)]) disk
             = ((Starting # Loaded_Vaults 0 # ev1 @ [Processing_Pairs (length ps)]) @ evs, dk)"
    using process_pairs_prefix
      [of mean corr ps "Starting # Loaded_Vaults 0 # ev1 @ [Processing_Pairs (length ps)]" "[]" disk]
    by (simp add: p)
  show ?thesis
    by (simp add: main_validation_def Let_def assms l f x y)
qed

text \<open>
  C9 as stated fails for the validator. With \<^verbatim>\<open>morpho_vaults.json\<close> missing and one matching
  pair of files, \<^verbatim>\<open>main\<close> of \<^verbatim>\<open>validation.py\<close> reports the missing file, goes on, processes
  the pair and writes its validation file.
\<close>

theorem missing_static_file_counterexample:
  "fst (main_validation exact_mean pearson File_Missing (Some [''a.csv'']) True sample_disk)
     = [Starting, Vaults_Not_Found, Loaded_Vaults 0, Found_Matching ''a.csv'',
        Processing_Pairs 1, Processing_File ''a.csv'',
        Reading ''data/defillama/a.csv'' 3 3, Reading ''data/dune/a.csv'' 2 2,
        Created_File ''data/validation/validation_a.csv'', Shape 3 3,
        Date_Range (Some 0) (Some 2), Records_DeFiLlama 2, Records_Dune 1, Records_Both 1]
   \<and> snd (main_validation exact_mean pearson File_Missing (Some [''a.csv'']) True sample_disk)
         ''data/validation/validation_a.csv''
     = Some (Table \<lparr>columns = [''date'', ''tvl_defillama'', ''tvl_dune''],
                     rows = [[Some (Time 0), Some (Num 105), None],
                             [Some (Time 86400), Some (Num 120), Some (Num 118)],
                             [Some (Time 172800), None, None]]\<rparr>)"
proof -
  have r1: "date_value_rows sample_defillama ''data/defillama/a.csv''
       = (Some [(Some 0, Some 100), (Some 0, Some 110), (Some 1, Some 120)],
          [Reading ''data/defillama/a.csv'' 3 3])"
    by (simp add: date_value_rows_def sample_defillama_def lower_def lower_char_def
          date_candidates_def tvl_candidates_def column_def cell_at_def dt_date_def)
  have r2: "date_value_rows sample_dune ''data/dune/a.csv''
       = (Some [(Some 1, Some 118), (Some 2, None)], [Reading ''data/dune/a.csv'' 2 2])"
    by (simp add: date_value_rows_def sample_dune_def lower_def lower_char_def
          date_candidates_def tvl_candidates_def column_def cell_at_def dt_date_def)
  have g1: "groupby_mean exact_mean [(Some 0, Some 100), (Some 0, Some 110), (Some 1, Some 120)]
       = [(0, Some 105), (1, Some 120)]"
    by (simp add: groupby_mean_def mean_skipna_def exact_mean_def)
  have g2: "groupby_mean exact_mean [(Some 1, Some 118), (Some 2, None)] = [(1, Some 118), (2, None)]"
    by (simp add: groupby_mean_def mean_skipna_def exact_mean_def)
  have a: "extract_tvl_data exact_mean sample_disk ''data/defillama/a.csv'' ''defillama''
     = (Some [(0, Some 105), (1, Some 120)], [Reading ''data/defillama/a.csv'' 3 3])"
    by (simp add: extract_tvl_data_def sample_disk_def r1 g1)
  have b: "extract_tvl_data exact_mean sample_disk ''data/dune/a.csv'' ''dune''
     = (Some [(1, Some 118), (2, None)], [Reading ''data/dune/a.csv'' 2 2])"
    by (simp add: extract_tvl_data_def sample_disk_def r2 g2)
  have m: "sort_values (merge_outer [(0, Some 105), (1, Some 120)] [(1, Some 118), (2, None)])
       = [(0, Some 105, None), (1, Some 120, Some 118), (2, None, None)]"
    by (simp add: sort_values_def merge_outer_def)
  have c: "create_validation_file pearson [(0, Some 105), (1, Some 120)]
            [(1, Some 118), (2, None)] ''a.csv'' sample_disk
     = (Some [(0, Some 105, None), (1, Some 120, Some 118), (2, None, None)],
        [Created_File ''data/validation/validation_a.csv'', Shape 3 3,
         Date_Range (Some 0) (Some 2), Records_DeFiLlama 2, Records_Dune 1, Records_Both 1],
        sample_disk(''data/validation/validation_a.csv'' \<mapsto>
          Table \<lparr>columns = [''date'', ''tvl_defillama'', ''tvl_dune''],
                   rows = [[Some (Time 0), Some (Num 105), None],
                           [Some (Time 86400), Some (Num 120), Some (Num 118)],
                           [Some (Time 172800), None, None]]\<rparr>))"
    by (simp add: create_validation_file_def Let_def m dropna_def min_date_def max_date_def
          validation_dir_def merged_frame_def)
  have f: "find_matching_files (Some [''a.csv'']) True sample_disk
     = ([\<lparr>defillama_path = ''data/defillama/a.csv'', dune_path = ''data/dune/a.csv'',
           pair_filename = ''a.csv''\<rparr>], [Found_Matching ''a.csv''])"
    by (simp add: find_matching_files_def sample_disk_def dune_dir_def defillama_dir_def)
  have p: "process_pair exact_mean pearson
             \<lparr>defillama_path = ''data/defillama/a.csv'', dune_path = ''data/dune/a.csv'',
                pair_filename = ''a.csv''\<rparr> out sample_disk
     = (out @ [Processing_File ''a.csv'', Reading ''data/defillama/a.csv'' 3 3,
               Reading ''data/dune/a.csv'' 2 2,
               Created_File ''data/validation/validation_a.csv'', Shape 3 3,
               Date_Range (Some 0) (Some 2), Records_DeFiLlama 2, Records_Dune 1,
               Records_Both 1],
        sample_disk(''data/validation/validation_a.csv'' \<mapsto>
          Table \<lparr>columns = [''date'', ''tvl_defillama'', ''tvl_dune''],
                   rows = [[Some (Time 0), Some (Num 105), None],
                           [Some (Time 86400), Some (Num 120), Some (Num 118)],
                           [Some (Time 172800), None, None]]\<rparr>))" for out
    by (simp add: process_pair_def Let_def a b c dropna_def)
  show ?thesis
    by (simp add: main_validation_def Let_def load_morpho_vaults_def f p)
qed

text \<open>
  C9, amended. In the fetcher, a missing \<^verbatim>\<open>morpho_vaults.json\<close> or one that is not JSON
  raises before any vault is processed: the run ends with the exception, nothing
  printed and the file system untouched, whatever the chart endpoint would answer. In the
  validator the failure is reported and taken as an empty vault list: the run is the run
  with an empty list, with the report printed after the first line, and the file pairs
  are processed all the same.
\<close>

theorem unusable_static_file:
  "main_defi_llama_validation File_Missing chart fs
     = (Some (FileNotFoundError ''morpho_vaults.json''), [], fs)
   \<and> main_defi_llama_validation (File_Invalid msg) chart fs
     = (Some (JSONDecodeError msg), [], fs)
   \<and> main_validation mean corr File_Missing listing dune_exists disk
     = (case main_validation mean corr (File_Json []) listing dune_exists disk of
          (out, disk') \<Rightarrow> (Starting # Vaults_Not_Found # tl out, disk'))
   \<and> main_validation mean corr (File_Invalid msg) listing dune_exists disk
     = (case main_validation mean corr (File_Json []) listing dune_exists disk of
          (out, disk') \<Rightarrow> (Starting # Vaults_Invalid_Json # tl out, disk'))"
proof -
  have a: "load_morpho_vaults File_Missing = ([], [Vaults_Not_Found])"
    by (simp add: load_morpho_vaults_def)
  have b: "load_morpho_vaults (File_Invalid msg) = ([], [Vaults_Invalid_Json])"
    by (simp add: load_morpho_vaults_def)
  show ?thesis
    using main_validation_report [OF a] main_validation_report [OF b]
    by (simp add: main_defi_llama_validation_def)
qed

theorem unusable_static_file_witness:
  "main_defi_llama_validation File_Missing sample_chart Map.empty
     = (Some (FileNotFoundError ''morpho_vaults.json''), [], Map.empty)
   \<and> fst (main_validation exact_mean pearson File_Missing None False sample_disk)
     = [Starting, Vaults_Not_Found, Loaded_Vaults 0, Dir_Not_Found ''data/defillama'',
        No_Matching_Files]"
  using unusable_static_file
    [where chart = sample_chart and fs = Map.empty and corr = pearson and mean = exact_mean
       and listing = None
       and dune_exists = False and disk = sample_disk and msg = "''Expecting value''"]
  by (simp add: main_validation_def load_morpho_vaults_def find_matching_files_def
        defillama_dir_def)


section \<open>The directories of the three scripts\<close>

lemma process_vault_writes:
  assumes "process_vault chart v out fs = (e, out', fs')" and "fs' p \<noteq> fs p"
  shows "\<exists>name. p = OUTPUT_DIR @ ''/'' @ name"
proof -
  obtain h printed where g: "get_historical_data chart (pool_id v) = (h, printed)"
    by (cases "get_historical_data chart (pool_id v)")
  show ?thesis
  proof (cases h)
    case (Inl x)
    with assms g show ?thesis by (simp add: process_vault_def)
  next
    case (Inr d)
    show ?thesis
    proof (cases d)
      case None
      with Inr assms g show ?thesis by (simp add: process_vault_def)
    next
      case (Some data)
      show ?thesis
      proof (cases "data = []")
        case True
        with Some Inr assms g show ?thesis by (simp add: process_vault_def)
      next
        case False
        with Some Inr assms g
        have "fs' = fs(OUTPUT_DIR @ ''/'' @ project v @ ''_'' @ chain v @ ''_''
                         @ symbol v @ ''.csv'' \<mapsto> to_csv True (DataFrame data))"
          by (simp add: process_vault_def Let_def)
        with assms(2)
        have "p = OUTPUT_DIR @ ''/'' @ project v @ ''_'' @ chain v @ ''_'' @ symbol v @ ''.csv''"
          by (auto split: if_splits)
        then show ?thesis by blast
      qed
    qed
  qed
qed

lemma process_vaults_writes:
  "process_vaults chart vs out fs = (e, out', fs') \<Longrightarrow> fs' p \<noteq> fs p
     \<Longrightarrow> \<exists>name. p = OUTPUT_DIR @ ''/'' @ name"
proof (induction vs arbitrary: out fs)
  case Nil
  then show ?case by simp
next
  case (Cons v vs)
  obtain e1 out1 fs1 where step: "process_vault chart v out fs = (e1, out1, fs1)"
    by (cases "process_vault chart v out fs") auto
  show ?case
  proof (cases "fs1 p = fs p")
    case False
    then show ?thesis using process_vault_writes [OF step] by simp
  next
    case True
    show ?thesis
    proof (cases e1)
      case (Some x)
      with step Cons.prems True show ?thesis by simp
    next
      case None
      with step Cons.prems(1) have "process_vaults chart vs out1 fs1 = (e, out', fs')"
        by simp
      moreover from True Cons.prems(2) have "fs' p \<noteq> fs1 p" by simp
      ultimately show ?thesis by (rule Cons.IH)
    qed
  qed
qed

lemma matching_pairs_of_paths:
  "q \<in> set (fst (matching_pairs_of disk names))
     \<Longrightarrow> defillama_path q = defillama_dir @ ''/'' @ pair_filename q
         \<and> dune_path q = dune_dir @ ''/'' @ pair_filename q"
  by (induction names) (auto simp: Let_def split: prod.splits if_splits)

text \<open>
  C4 as stated fails. The fetcher's \<^verbatim>\<open>OUTPUT_DIR\<close> is the directory the validator writes its
  merged output into, not the provider-A directory the validator scans: a run of the
  fetcher on one vault leaves its file under \<^verbatim>\<open>data/validation\<close>.
\<close>

theorem fetcher_directory_counterexample:
  "OUTPUT_DIR = validation_dir \<and> OUTPUT_DIR \<noteq> defillama_dir
   \<and> snd (snd (main_defi_llama_validation (File_Json [vault_a]) sample_chart Map.empty))
     = [''data/validation/morpho_Ethereum_USDC.csv'' \<mapsto> [Header [''tvlUsd''], Row [Some 5]]]"
proof -
  have a: "get_historical_data sample_chart ''p1''
             = (Inr (Some [[(''tvlUsd'', 5)]]), [''Fetching historical data for pool p1...''])"
    by (simp add: get_historical_data_def sample_chart_def)
  have d: "DataFrame [[(''tvlUsd'', 5::int)]] = \<lparr>columns = [''tvlUsd''], rows = [[Some 5]]\<rparr>"
    by (simp add: DataFrame_def first_seen_def)
  show ?thesis
    by (simp add: main_defi_llama_validation_def process_vault_def vault_a_def a d
          OUTPUT_DIR_def validation_dir_def defillama_dir_def to_csv_def Let_def)
qed

text \<open>
  C4, amended. The validator uses three distinct directories: it pairs the files of
  \<^verbatim>\<open>data/defillama\<close> and \<^verbatim>\<open>data/dune\<close> (the two paths of every pair it finds are the pair's
  file name under these two directories) and writes the merged table of a pair to
  \<^verbatim>\<open>data/validation\<close>, as \<^verbatim>\<open>validation_\<close> followed by the shared file name, changing no other
  file. The fetcher writes its per-vault files into \<^verbatim>\<open>data/validation\<close> too, the
  validator's output directory: every file a run of the fetcher creates or changes has a
  path under \<^verbatim>\<open>data/validation\<close>, and none has a path under \<^verbatim>\<open>data/defillama\<close> or
  \<^verbatim>\<open>data/dune\<close>.
\<close>

theorem directories_of_the_scripts:
  fixes fs :: "'v fs"
  shows "defillama_dir \<noteq> dune_dir \<and> defillama_dir \<noteq> validation_dir \<and> dune_dir \<noteq> validation_dir
         \<and> OUTPUT_DIR = validation_dir
         \<and> (\<forall>p. snd (snd (main_defi_llama_validation static chart fs)) p \<noteq> fs p
                \<longrightarrow> (\<exists>name. p = validation_dir @ ''/'' @ name)
                    \<and> (\<forall>name. p \<noteq> defillama_dir @ ''/'' @ name)
                    \<and> (\<forall>name. p \<noteq> dune_dir @ ''/'' @ name))
         \<and> (\<forall>q \<in> set (fst (find_matching_files listing dune_exists disk)).
                defillama_path q = defillama_dir @ ''/'' @ pair_filename q
                \<and> dune_path q = dune_dir @ ''/'' @ pair_filename q)
         \<and> (\<forall>p. snd (snd (create_validation_file corr l r fname disk)) p \<noteq> disk p
                \<longrightarrow> p = validation_dir @ ''/'' @ ''validation_'' @ fname)"
proof -
  have a: "defillama_dir \<noteq> dune_dir \<and> defillama_dir \<noteq> validation_dir
           \<and> dune_dir \<noteq> validation_dir \<and> OUTPUT_DIR = validation_dir"
    by (simp add: defillama_dir_def dune_dir_def validation_dir_def OUTPUT_DIR_def)
  have b: "(\<exists>name. p = validation_dir @ ''/'' @ name)
           \<and> (\<forall>name. p \<noteq> defillama_dir @ ''/'' @ name)
           \<and> (\<forall>name. p \<noteq> dune_dir @ ''/'' @ name)"
    if w: "snd (snd (main_defi_llama_validation static chart fs)) p \<noteq> fs p" for p
  proof -
    have "\<exists>name. p = OUTPUT_DIR @ ''/'' @ name"
    proof (cases static)
      case File_Missing
      with w show ?thesis by (simp add: main_defi_llama_validation_def)
    next
      case (File_Invalid m)
      with w show ?thesis by (simp add: main_defi_llama_validation_def)
    next
      case (File_Json vaults)
      obtain e out' fs' where r: "process_vaults chart vaults [] fs = (e, out', fs')"
        by (cases "process_vaults chart vaults [] fs") auto
      with w File_Json have "fs' p \<noteq> fs p" by (simp add: main_defi_llama_validation_def)
      with r show ?thesis by (rule process_vaults_writes)
    qed
    then obtain name where "p = OUTPUT_DIR @ ''/'' @ name" by blast
    then show ?thesis
      by (simp add: OUTPUT_DIR_def validation_dir_def defillama_dir_def dune_dir_def)
  qed
  have c: "defillama_path q = defillama_dir @ ''/'' @ pair_filename q
           \<and> dune_path q = dune_dir @ ''/'' @ pair_filename q"
    if "q \<in> set (fst (find_matching_files listing dune_exists disk))" for q
  proof (cases listing)
    case None
    with that show ?thesis by (simp add: find_matching_files_def)
  next
    case (Some names)
    show ?thesis
    proof (cases dune_exists)
      case True
      with Some that have "q \<in> set (fst (matching_pairs_of disk names))"
        by (simp add: find_matching_files_def)
      then show ?thesis by (rule matching_pairs_of_paths)
    next
      case False
      with Some that show ?thesis by (simp add: find_matching_files_def)
    qed
  qed
  have d: "p = validation_dir @ ''/'' @ ''validation_'' @ fname"
    if "snd (snd (create_validation_file corr l r fname disk)) p \<noteq> disk p" for p
    using that by (auto simp: create_validation_file_def Let_def split: if_splits)
  from a b c d show ?thesis by blast
qed

theorem directories_of_the_scripts_witness:
  "snd (snd (main_defi_llama_validation (File_Json [vault_a]) sample_chart Map.empty))
       ''data/validation/morpho_Ethereum_USDC.csv''
     \<noteq> (Map.empty :: int fs) ''data/validation/morpho_Ethereum_USDC.csv''
   \<and> ''data/validation/morpho_Ethereum_USDC.csv''
       = validation_dir @ ''/'' @ ''morpho_Ethereum_USDC.csv''
   \<and> set (fst (find_matching_files (Some [''a.csv'']) True sample_disk))
       = {\<lparr>defillama_path = ''data/defillama/a.csv'', dune_path = ''data/dune/a.csv'',
            pair_filename = ''a.csv''\<rparr>}"
proof -
  have a: "get_historical_data sample_chart ''p1''
             = (Inr (Some [[(''tvlUsd'', 5)]]), [''Fetching historical data for pool p1...''])"
    by (simp add: get_historical_data_def sample_chart_def)
  have w: "snd (snd (main_defi_llama_validation (File_Json [vault_a]) sample_chart Map.empty))
       ''data/validation/morpho_Ethereum_USDC.csv''
     \<noteq> (Map.empty :: int fs) ''data/validation/morpho_Ethereum_USDC.csv''"
    by (simp add: main_defi_llama_validation_def process_vault_def vault_a_def a
          OUTPUT_DIR_def Let_def)
  have f: "find_matching_files (Some [''a.csv'']) True sample_disk
     = ([\<lparr>defillama_path = ''data/defillama/a.csv'', dune_path = ''data/dune/a.csv'',
           pair_filename = ''a.csv''\<rparr>], [Found_Matching ''a.csv''])"
    by (simp add: find_matching_files_def sample_disk_def dune_dir_def defillama_dir_def)
  show ?thesis
    using directories_of_the_scripts
      [where static = "File_Json [vault_a]" and chart = sample_chart
         and fs = "Map.empty :: int fs" and listing = "Some [''a.csv'']" and dune_exists = True
         and disk = sample_disk and corr = pearson and l = "[]" and r = "[]"
         and fname = "''a.csv''"]
      w f
    by (simp add: validation_dir_def)
qed

end
